theory Spec2Isabelle
  imports Complex_Main
begin

section \<open>Hallucination Hunter: retrieval, verification fusion, drift mitigation, scoring\<close>

text \<open>
  A shallow embedding of the four decision layers of the repository
  (\<^verbatim>\<open>src/layers/retrieval.py\<close>, \<^verbatim>\<open>verification.py\<close>, \<^verbatim>\<open>drift.py\<close>, \<^verbatim>\<open>scoring.py\<close>).

  Conventions of the embedding:
  \<^item> a Python \<^verbatim>\<open>float\<close> is a \<^typ>\<open>real\<close>: the arithmetic of the layers is modelled exactly,
    without the rounding of IEEE doubles;
  \<^item> a Python \<^verbatim>\<open>str\<close> is a \<^typ>\<open>string\<close>; \<^verbatim>\<open>str.lower\<close> is modelled on the ASCII letters;
  \<^item> a dataclass is a record; a field whose name is shared by several dataclasses
    (or is a keyword of Isabelle) carries a short prefix;
  \<^item> the pretrained models and libraries behind the layers (NLI classifier, vector and BM25
    search, embedding similarity, \<^verbatim>\<open>difflib.SequenceMatcher\<close>, \<^verbatim>\<open>re.findall\<close>) are parameters
    of the functions that call them.
\<close>

subsection \<open>Constants (\<^verbatim>\<open>src/config/constants.py\<close>)\<close>

datatype ClaimCategory = SUPPORTED | CONTRADICTED | UNVERIFIABLE

datatype ConfidenceLevel = CERTAIN | LIKELY | UNCERTAIN

definition from_score :: "real \<Rightarrow> ConfidenceLevel" where
  "from_score score =
     (if score \<ge> 0.85 then CERTAIN
      else if score \<ge> 0.6 then LIKELY
      else UNCERTAIN)"

type_synonym zone = "nat \<times> nat \<times> string \<times> string"

definition TrustZone_HIGH :: zone where
  "TrustZone_HIGH = (80, 100, ''Good'', ''#10b981'')"

definition TrustZone_MEDIUM :: zone where
  "TrustZone_MEDIUM = (50, 80, ''Review Needed'', ''#f59e0b'')"

definition TrustZone_LOW :: zone where
  "TrustZone_LOW = (0, 50, ''Unreliable'', ''#ef4444'')"

definition get_zone :: "real \<Rightarrow> zone" where
  "get_zone score =
     (if score \<ge> 80 then TrustZone_HIGH
      else if score \<ge> 50 then TrustZone_MEDIUM
      else TrustZone_LOW)"

definition DEFAULT_TOP_K :: nat where "DEFAULT_TOP_K = 7"
definition DEFAULT_SIMILARITY_THRESHOLD :: real where "DEFAULT_SIMILARITY_THRESHOLD = 0.5"
definition DEFAULT_HYBRID_WEIGHT_VECTOR :: real where "DEFAULT_HYBRID_WEIGHT_VECTOR = 0.6"
definition DEFAULT_HYBRID_WEIGHT_KEYWORD :: real where "DEFAULT_HYBRID_WEIGHT_KEYWORD = 0.4"
definition DEFAULT_ENTITY_MATCH_THRESHOLD :: real where "DEFAULT_ENTITY_MATCH_THRESHOLD = 0.9"
definition DEFAULT_DRIFT_VARIANCE_THRESHOLD :: real where "DEFAULT_DRIFT_VARIANCE_THRESHOLD = 0.2"
definition DEFAULT_DRIFT_CONFIDENCE_PENALTY :: real where "DEFAULT_DRIFT_CONFIDENCE_PENALTY = 0.1"
definition DEFAULT_WEIGHT_SUPPORTED_RATIO :: real where "DEFAULT_WEIGHT_SUPPORTED_RATIO = 0.4"
definition DEFAULT_WEIGHT_AVG_CONFIDENCE :: real where "DEFAULT_WEIGHT_AVG_CONFIDENCE = 0.3"
definition DEFAULT_WEIGHT_DRIFT_SCORE :: real where "DEFAULT_WEIGHT_DRIFT_SCORE = 0.2"
definition DEFAULT_WEIGHT_SEVERITY :: real where "DEFAULT_WEIGHT_SEVERITY = 0.1"

text \<open>
  Python's \<^verbatim>\<open>x or d\<close> on an optional number: the default \<open>d\<close> replaces both \<^verbatim>\<open>None\<close>
  and the falsy value \<open>0\<close>.
\<close>

definition or_default :: "'a::zero option \<Rightarrow> 'a \<Rightarrow> 'a" where
  "or_default x d = (case x of None \<Rightarrow> d | Some v \<Rightarrow> if v = 0 then d else v)"

subsection \<open>Strings\<close>

definition lower_char :: "char \<Rightarrow> char" where
  "lower_char c =
     (let n = (of_char c :: nat)
      in if 65 \<le> n \<and> n \<le> 90 then char_of (n + 32) else c)"

definition lower :: "string \<Rightarrow> string" where
  "lower s = map lower_char s"

text \<open>Python's \<^verbatim>\<open>a in b\<close> on strings: \<open>a\<close> occurs in \<open>b\<close> as a contiguous substring.\<close>

fun is_substring :: "string \<Rightarrow> string \<Rightarrow> bool" where
  "is_substring a [] = (a = [])"
| "is_substring a (c # cs) = (take (length a) (c # cs) = a \<or> is_substring a cs)"

text \<open>Python's \<^verbatim>\<open>sep.join(parts)\<close>.\<close>

fun join :: "string \<Rightarrow> string list \<Rightarrow> string" where
  "join sep [] = []"
| "join sep [p] = p"
| "join sep (p # q # ps) = p @ sep @ join sep (q # ps)"

text \<open>Decimal rendering of an integer, as \<^verbatim>\<open>str(n)\<close> and an f-string do.\<close>

definition digit_char :: "nat \<Rightarrow> char" where
  "digit_char d = char_of (48 + d)"

function str_nat :: "nat \<Rightarrow> string" where
  "str_nat n =
     (if n < 10 then [digit_char n] else str_nat (n div 10) @ [digit_char (n mod 10)])"
  by pat_completeness auto
termination
  by (relation "measure (\<lambda>n. n)") auto

declare str_nat.simps [simp del]

definition str_int :: "int \<Rightarrow> string" where
  "str_int i = (if i < 0 then CHR ''-'' # str_nat (nat (- i)) else str_nat (nat i))"

subsection \<open>Data model\<close>

text \<open>
  The dataclasses of the layers. Fields that none of the four layers reads (the embedding
  vector of a chunk, the sub-claims and metadata of a claim, the raw scores of the
  classifier) are left out.
\<close>

text \<open>\<^verbatim>\<open>claim_intelligence.Entity\<close>\<close>

record Entity =
  entity_text :: string
  entity_label :: string
  entity_start :: int
  entity_end :: int
  severity_weight :: real

text \<open>\<^verbatim>\<open>claim_intelligence.Claim\<close>\<close>

record Claim =
  c_claim_id :: string
  c_text :: string
  source_sentence :: string
  source_start :: int
  source_end :: int
  entities :: "Entity list"
  is_atomic :: bool

text \<open>The property \<^verbatim>\<open>Claim.max_severity_weight\<close>.\<close>

definition max_severity_weight :: "Claim \<Rightarrow> real" where
  "max_severity_weight c =
     (case entities c of
        [] \<Rightarrow> 1.0
      | e # es \<Rightarrow> fold (\<lambda>x m. max m (severity_weight x)) es (severity_weight e))"

text \<open>
  A value of the metadata dictionary of a chunk; \<open>truthy\<close> is Python's truth test and
  \<open>fmt\<close> the rendering inside an f-string.
\<close>

datatype meta_value = MInt int | MStr string

fun truthy :: "meta_value \<Rightarrow> bool" where
  "truthy (MInt i) = (i \<noteq> 0)"
| "truthy (MStr s) = (s \<noteq> [])"

fun fmt :: "meta_value \<Rightarrow> string" where
  "fmt (MInt i) = str_int i"
| "fmt (MStr s) = s"

text \<open>\<^verbatim>\<open>ingestion.IndexedChunk\<close>\<close>

record IndexedChunk =
  chunk_id :: string
  content :: string
  document_id :: string
  document_name :: string
  chunk_index :: int
  start_char :: int
  end_char :: int
  page_number :: "int option"
  metadata :: "string \<rightharpoonup> meta_value"

text \<open>\<^verbatim>\<open>retrieval.EvidenceResult\<close>\<close>

record EvidenceResult =
  ev_claim_id :: string
  ev_claim_text :: string
  evidence_chunks :: "IndexedChunk list"
  scores :: "real list"
  retrieval_method :: string
  top_evidence :: "string option"
  ev_citation :: "string option"

text \<open>
  Modelled from the spec: the class \<^verbatim>\<open>NLIResult\<close> of \<^verbatim>\<open>src/models/nli_model.py\<close> is not
  among the sources. A classifier result carries the entailment, contradiction and neutral
  scores; the record has the fields that the verification layer sets when it builds one
  (apart from the dictionary of raw scores) and the three scores that it reads.
\<close>

record NLIResult =
  nli_category :: ClaimCategory
  nli_confidence :: real
  nli_confidence_level :: ConfidenceLevel
  entailment_score :: real
  contradiction_score :: real
  neutral_score :: real

text \<open>\<^verbatim>\<open>verification.EntityMatch\<close>\<close>

record EntityMatch =
  claim_entity :: Entity
  evidence_match :: "string option"
  similarity :: real
  is_match :: bool
  is_contradiction :: bool
  details :: string

text \<open>\<^verbatim>\<open>verification.VerificationResult\<close>\<close>

record VerificationResult =
  vr_claim_id :: string
  vr_claim_text :: string
  category :: ClaimCategory
  confidence :: real
  confidence_level :: ConfidenceLevel
  nli_result :: NLIResult
  entity_matches :: "EntityMatch list"
  evidence_used :: string
  vr_citation :: string
  explanation :: string
  entity_consistency_score :: real
  numerical_accuracy_score :: real
  temporal_consistency_score :: real

text \<open>
  Modelled from the spec: the classes \<^verbatim>\<open>ClaimDrift\<close> and \<^verbatim>\<open>DriftReport\<close> of
  \<^verbatim>\<open>src/models/drift_detector.py\<close> are not among the sources. A report holds per-claim
  drift entries, each with the claim text, a drift score and a stability flag; these are
  the fields that the drift layer reads.
\<close>

record ClaimDrift =
  drift_claim :: string
  drift_score :: real
  cd_is_stable :: bool

record DriftReport =
  claim_drifts :: "ClaimDrift list"

text \<open>\<^verbatim>\<open>drift.DriftAdjustedResult\<close>\<close>

record DriftAdjustedResult =
  original_result :: VerificationResult
  drift_analysis :: "ClaimDrift option"
  adjusted_confidence :: real
  drift_penalty :: real
  is_stable :: bool
  stability_note :: string


subsection \<open>Layer 6: scoring (\<^verbatim>\<open>src/layers/scoring.py\<close>)\<close>

datatype TrustLevel = HIGH | MEDIUM | LOW | CRITICAL

datatype Domain = HEALTHCARE | LAW | FINANCE | GENERAL

text \<open>\<^verbatim>\<open>DOMAIN_CONFIGS[domain]["severity_multiplier"]\<close>\<close>

fun severity_multiplier :: "Domain \<Rightarrow> real" where
  "severity_multiplier HEALTHCARE = 2.0"
| "severity_multiplier LAW = 1.8"
| "severity_multiplier FINANCE = 1.9"
| "severity_multiplier GENERAL = 1.0"

record ScoreBreakdown =
  supported_ratio :: real
  supported_contribution :: real
  avg_confidence :: real
  confidence_contribution :: real
  b_drift_score :: real
  drift_contribution :: real
  severity_score :: real
  severity_contribution :: real

record CategoryStats =
  supported :: nat
  contradicted :: nat
  unverifiable :: nat

definition stats_total :: "CategoryStats \<Rightarrow> nat" where
  "stats_total stats = supported stats + contradicted stats + unverifiable stats"

record TrustScore =
  score :: real
  level :: TrustLevel
  breakdown :: ScoreBreakdown
  category_counts :: CategoryStats
  total_claims :: nat
  flagged_claims :: "string list"
  recommendations :: "string list"
  ts_zone :: zone

record ScoringLayer =
  domain :: Domain
  weight_supported :: real
  weight_confidence :: real
  weight_drift :: real
  weight_severity :: real

text \<open>\<^verbatim>\<open>ScoringLayer.__init__\<close>: an absent (or zero) weight is taken from the settings.\<close>

definition ScoringLayer_init ::
  "Domain \<Rightarrow> real option \<Rightarrow> real option \<Rightarrow> real option \<Rightarrow> real option \<Rightarrow> ScoringLayer" where
  "ScoringLayer_init d ws wc wd wv =
     \<lparr> domain = d,
       weight_supported = or_default ws DEFAULT_WEIGHT_SUPPORTED_RATIO,
       weight_confidence = or_default wc DEFAULT_WEIGHT_AVG_CONFIDENCE,
       weight_drift = or_default wd DEFAULT_WEIGHT_DRIFT_SCORE,
       weight_severity = or_default wv DEFAULT_WEIGHT_SEVERITY \<rparr>"

text \<open>\<^verbatim>\<open>_calculate_category_stats\<close>: one pass over the results, counting by category.\<close>

definition count_result :: "VerificationResult \<Rightarrow> CategoryStats \<Rightarrow> CategoryStats" where
  "count_result result stats =
     (if category result = SUPPORTED then stats\<lparr>supported := supported stats + 1\<rparr>
      else if category result = CONTRADICTED then stats\<lparr>contradicted := contradicted stats + 1\<rparr>
      else stats\<lparr>unverifiable := unverifiable stats + 1\<rparr>)"

definition calculate_category_stats :: "VerificationResult list \<Rightarrow> CategoryStats" where
  "calculate_category_stats results =
     fold count_result results \<lparr>supported = 0, contradicted = 0, unverifiable = 0\<rparr>"

text \<open>
  \<^verbatim>\<open>_calculate_severity_score\<close>. Without claims (\<^verbatim>\<open>None\<close> or an empty list) it is the plain
  fraction of contradicted results. With claims, \<^verbatim>\<open>claim_map\<close> is a dictionary by claim id,
  in which a later claim replaces an earlier one of the same id; the loop accumulates the
  pair (severity of all results, severity of the contradicted ones).
\<close>

definition claim_map :: "Claim list \<Rightarrow> (string \<rightharpoonup> Claim)" where
  "claim_map claims = fold (\<lambda>c m. m(c_claim_id c \<mapsto> c)) claims Map.empty"

definition severity_step ::
  "ScoringLayer \<Rightarrow> (string \<rightharpoonup> Claim) \<Rightarrow> VerificationResult \<Rightarrow> real \<times> real \<Rightarrow> real \<times> real" where
  "severity_step L m result acc =
     (case m (vr_claim_id result) of
        None \<Rightarrow> acc
      | Some claim \<Rightarrow>
          (let weight = max_severity_weight claim * severity_multiplier (domain L)
           in (fst acc + weight,
               if category result = CONTRADICTED then snd acc + weight else snd acc)))"

definition calculate_severity_score ::
  "ScoringLayer \<Rightarrow> VerificationResult list \<Rightarrow> Claim list option \<Rightarrow> real" where
  "calculate_severity_score L results claims =
     (if claims = None \<or> claims = Some [] then
        (let contradicted_results = filter (\<lambda>r. category r = CONTRADICTED) results
         in if contradicted_results = [] \<or> results = [] then 0
            else real (length contradicted_results) / real (length results))
      else
        (let acc = fold (severity_step L (claim_map (the claims))) results (0, 0)
         in if fst acc = 0 then 0 else snd acc / fst acc))"

text \<open>\<^verbatim>\<open>_determine_trust_level\<close>\<close>

definition determine_trust_level :: "real \<Rightarrow> CategoryStats \<Rightarrow> TrustLevel" where
  "determine_trust_level sc stats =
     (if sc \<ge> 80 \<and> contradicted stats = 0 then HIGH
      else if sc \<ge> 50 then MEDIUM
      else if real (contradicted stats) > real (stats_total stats) * 0.3 then CRITICAL
      else LOW)"

text \<open>\<^verbatim>\<open>_get_flagged_claims\<close>\<close>

definition get_flagged_claims :: "VerificationResult list \<Rightarrow> string list" where
  "get_flagged_claims results =
     map vr_claim_text
       (filter (\<lambda>r. category r = CONTRADICTED \<or>
                     (category r = UNVERIFIABLE \<and> confidence r < 0.6)) results)"

text \<open>\<^verbatim>\<open>_generate_recommendations\<close>\<close>

definition generate_recommendations ::
  "real \<Rightarrow> CategoryStats \<Rightarrow> VerificationResult list \<Rightarrow> string list" where
  "generate_recommendations sc stats results =
     (let low_confidence = filter (\<lambda>r. confidence r < 0.6) results;
          recs =
            (if contradicted stats > 0
             then [''Review '' @ str_nat (contradicted stats) @
                   '' contradicted claim(s) and consider corrections.'']
             else []) @
            (if real (unverifiable stats) > real (stats_total stats) * 0.3
             then [''Many claims lack sufficient evidence. Consider adding more source documents.'']
             else []) @
            (if sc < 50
             then [''Low trust score indicates significant issues. Manual review strongly recommended.'']
             else []) @
            (if length low_confidence > 3
             then [str_nat (length low_confidence) @
                   '' claims have low confidence scores. Consider reviewing these.'']
             else [])
      in if recs = [] then
           (if sc \<ge> 80 then [''Document passes verification with high confidence.'']
            else [''Document passes verification. Minor review suggested.''])
         else recs)"

text \<open>\<^verbatim>\<open>_empty_trust_score\<close>\<close>

definition empty_trust_score :: TrustScore where
  "empty_trust_score =
     \<lparr> score = 0, level = LOW,
       breakdown = \<lparr> supported_ratio = 0, supported_contribution = 0,
                     avg_confidence = 0, confidence_contribution = 0,
                     b_drift_score = 0, drift_contribution = 0,
                     severity_score = 0, severity_contribution = 0 \<rparr>,
       category_counts = \<lparr>supported = 0, contradicted = 0, unverifiable = 0\<rparr>,
       total_claims = 0, flagged_claims = [],
       recommendations = [''No claims to verify.''],
       ts_zone = TrustZone_LOW \<rparr>"

text \<open>
  Python's \<^verbatim>\<open>round(x, 1)\<close> on the exact value: to the nearest tenth, a tie going to the
  even neighbour.
\<close>

definition round1 :: "real \<Rightarrow> real" where
  "round1 x =
     (let y = x * 10; f = \<lfloor>y\<rfloor>; d = y - of_int f
      in of_int (if d < 1/2 then f else if d > 1/2 then f + 1
                 else if even f then f else f + 1) / 10)"

text \<open>
  The component values of \<^verbatim>\<open>calculate_trust_score\<close> (lines 179 to 193 of the source): the
  supported ratio, the average confidence and mean drift penalty (over the drift-adjusted
  results when that list is given and non-empty), and the severity score.
\<close>

definition component_values ::
  "ScoringLayer \<Rightarrow> VerificationResult list \<Rightarrow> DriftAdjustedResult list option \<Rightarrow>
   Claim list option \<Rightarrow> real \<times> real \<times> real \<times> real" where
  "component_values L verification_results drift_adjusted_results claims =
     (let stats = calculate_category_stats verification_results;
          sr = (if stats_total stats > 0 then real (supported stats) / real (stats_total stats) else 0);
          (ac, ds) =
            (case drift_adjusted_results of
               Some (d # ds) \<Rightarrow>
                 (sum_list (map adjusted_confidence (d # ds)) / real (length (d # ds)),
                  sum_list (map drift_penalty (d # ds)) / real (length (d # ds)))
             | _ \<Rightarrow>
                 (sum_list (map confidence verification_results) /
                    real (length verification_results), 0));
          sev = calculate_severity_score L verification_results claims
      in (sr, ac, ds, sev))"

text \<open>The weighted sum scaled to 0..100 and clamped (lines 196 to 205 of the source).\<close>

definition final_score ::
  "ScoringLayer \<Rightarrow> VerificationResult list \<Rightarrow> DriftAdjustedResult list option \<Rightarrow>
   Claim list option \<Rightarrow> real" where
  "final_score L verification_results drift_adjusted_results claims =
     (case component_values L verification_results drift_adjusted_results claims of
        (sr, ac, ds, sev) \<Rightarrow>
          (let score_components =
                 sr * weight_supported L + ac * weight_confidence L +
                 (1 - ds) * weight_drift L + (1 - sev) * weight_severity L
           in max 0 (min 100 (score_components * 100))))"

definition calculate_trust_score ::
  "ScoringLayer \<Rightarrow> VerificationResult list \<Rightarrow> DriftAdjustedResult list option \<Rightarrow>
   Claim list option \<Rightarrow> TrustScore" where
  "calculate_trust_score L verification_results drift_adjusted_results claims =
     (if verification_results = [] then empty_trust_score
      else
        (case component_values L verification_results drift_adjusted_results claims of
           (sr, ac, ds, sev) \<Rightarrow>
             (let stats = calculate_category_stats verification_results;
                  fs = final_score L verification_results drift_adjusted_results claims
              in \<lparr> score = round1 fs,
                   level = determine_trust_level fs stats,
                   breakdown =
                     \<lparr> supported_ratio = sr,
                       supported_contribution = sr * weight_supported L * 100,
                       avg_confidence = ac,
                       confidence_contribution = ac * weight_confidence L * 100,
                       b_drift_score = ds,
                       drift_contribution = (1 - ds) * weight_drift L * 100,
                       severity_score = sev,
                       severity_contribution = (1 - sev) * weight_severity L * 100 \<rparr>,
                   category_counts = stats,
                   total_claims = stats_total stats,
                   flagged_claims = get_flagged_claims verification_results,
                   recommendations =
                     generate_recommendations fs stats verification_results,
                   ts_zone = get_zone fs \<rparr>)))"

text \<open>
  The scenario of the specification: five results, three supported and two contradicted,
  each with confidence 0.8, scored by a layer with the default weights.
\<close>

definition mk_result :: "string \<Rightarrow> ClaimCategory \<Rightarrow> real \<Rightarrow> VerificationResult" where
  "mk_result cid cat conf =
     \<lparr> vr_claim_id = cid, vr_claim_text = cid, category = cat, confidence = conf,
       confidence_level = from_score conf,
       nli_result = \<lparr> nli_category = cat, nli_confidence = conf,
                      nli_confidence_level = from_score conf,
                      entailment_score = 0, contradiction_score = 0, neutral_score = 1 \<rparr>,
       entity_matches = [], evidence_used = ''evidence'', vr_citation = ''doc'',
       explanation = '''', entity_consistency_score = 1, numerical_accuracy_score = 1,
       temporal_consistency_score = 1 \<rparr>"

definition five_results :: "VerificationResult list" where
  "five_results =
     [mk_result ''claim_0'' SUPPORTED 0.8, mk_result ''claim_1'' SUPPORTED 0.8,
      mk_result ''claim_2'' SUPPORTED 0.8, mk_result ''claim_3'' CONTRADICTED 0.8,
      mk_result ''claim_4'' CONTRADICTED 0.8]"

definition default_scoring :: ScoringLayer where
  "default_scoring = ScoringLayer_init GENERAL None None None None"

text \<open>Two contradicted results of low confidence.\<close>

definition two_contradicted :: "VerificationResult list" where
  "two_contradicted =
     [mk_result ''claim_0'' CONTRADICTED 0.1, mk_result ''claim_1'' CONTRADICTED 0.1]"

subsection \<open>Layer 5: drift mitigation (\<^verbatim>\<open>src/layers/drift.py\<close>)\<close>

text \<open>
  The attributes of the layer that the adjustment reads: the two settings and the cached
  report of the last \<^verbatim>\<open>analyze_drift\<close>.
\<close>

record DriftMitigationLayer =
  variance_threshold :: real
  confidence_penalty :: real
  cached_drift_report :: "DriftReport option"

text \<open>\<^verbatim>\<open>DriftMitigationLayer.__init__\<close>: an absent (or zero) setting is taken from the settings.\<close>

definition DriftMitigationLayer_init :: "real option \<Rightarrow> real option \<Rightarrow> DriftMitigationLayer" where
  "DriftMitigationLayer_init vt cp =
     \<lparr> variance_threshold = or_default vt DEFAULT_DRIFT_VARIANCE_THRESHOLD,
       confidence_penalty = or_default cp DEFAULT_DRIFT_CONFIDENCE_PENALTY,
       cached_drift_report = None \<rparr>"

text \<open>\<^verbatim>\<open>_calculate_penalty\<close>\<close>

definition calculate_penalty :: "DriftMitigationLayer \<Rightarrow> real \<Rightarrow> real" where
  "calculate_penalty L d =
     (if d \<le> variance_threshold L then 0.0
      else (let excess_drift = d - variance_threshold L
            in min (excess_drift * confidence_penalty L * 5) 0.5))"

text \<open>
  \<^verbatim>\<open>_find_claim_drift\<close>: the first entry of the report whose claim is the text itself; failing
  that, the first entry whose embedding similarity to the text exceeds 0.9. The similarity
  of the embedding model is the parameter \<open>sim\<close>.
\<close>

definition find_claim_drift ::
  "(string \<Rightarrow> string \<Rightarrow> real) \<Rightarrow> string \<Rightarrow> DriftReport option \<Rightarrow> ClaimDrift option" where
  "find_claim_drift sim text report =
     (case report of
        None \<Rightarrow> None
      | Some rep \<Rightarrow>
          (case find (\<lambda>drift. drift_claim drift = text) (claim_drifts rep) of
             Some drift \<Rightarrow> Some drift
           | None \<Rightarrow> find (\<lambda>drift. sim text (drift_claim drift) > 0.9) (claim_drifts rep)))"

text \<open>
  The body of the loop of \<^verbatim>\<open>adjust_verification_results\<close> for one result. The parameter
  \<open>fmt2f\<close> is Python's rendering \<^verbatim>\<open>{x:.2f}\<close> of a float.
\<close>

definition adjust_result ::
  "(string \<Rightarrow> string \<Rightarrow> real) \<Rightarrow> (real \<Rightarrow> string) \<Rightarrow> DriftMitigationLayer \<Rightarrow>
   DriftReport option \<Rightarrow> VerificationResult \<Rightarrow> DriftAdjustedResult" where
  "adjust_result sim fmt2f L report result =
     (let claim_drift = find_claim_drift sim (vr_claim_text result) report
      in case claim_drift of
           Some cd \<Rightarrow>
             (if \<not> cd_is_stable cd then
                (let penalty = calculate_penalty L (drift_score cd)
                 in \<lparr> original_result = result, drift_analysis = claim_drift,
                      adjusted_confidence = confidence result * (1 - penalty),
                      drift_penalty = penalty, is_stable = False,
                      stability_note =
                        ''Claim shows variance across regenerations (drift score: '' @
                        fmt2f (drift_score cd) @ '')'' \<rparr>)
              else
                \<lparr> original_result = result, drift_analysis = claim_drift,
                  adjusted_confidence = confidence result,
                  drift_penalty = 0.0, is_stable = True,
                  stability_note = ''Claim is stable across regenerations'' \<rparr>)
         | None \<Rightarrow>
             \<lparr> original_result = result, drift_analysis = claim_drift,
               adjusted_confidence = confidence result,
               drift_penalty = 0.0, is_stable = True,
               stability_note = ''Claim is stable across regenerations'' \<rparr>)"

text \<open>
  \<^verbatim>\<open>adjust_verification_results\<close>: the report given, or else the cached one; one adjusted
  result is appended per verification result.
\<close>

fun adjust_loop ::
  "(string \<Rightarrow> string \<Rightarrow> real) \<Rightarrow> (real \<Rightarrow> string) \<Rightarrow> DriftMitigationLayer \<Rightarrow>
   DriftReport option \<Rightarrow> VerificationResult list \<Rightarrow> DriftAdjustedResult list \<Rightarrow>
   DriftAdjustedResult list" where
  "adjust_loop sim fmt2f L report [] adjusted_results = adjusted_results"
| "adjust_loop sim fmt2f L report (result # rest) adjusted_results =
     adjust_loop sim fmt2f L report rest
       (adjusted_results @ [adjust_result sim fmt2f L report result])"

definition adjust_verification_results ::
  "(string \<Rightarrow> string \<Rightarrow> real) \<Rightarrow> (real \<Rightarrow> string) \<Rightarrow> DriftMitigationLayer \<Rightarrow>
   VerificationResult list \<Rightarrow> DriftReport option \<Rightarrow> DriftAdjustedResult list" where
  "adjust_verification_results sim fmt2f L verification_results drift_report =
     (let report = (case drift_report of Some r \<Rightarrow> Some r | None \<Rightarrow> cached_drift_report L)
      in adjust_loop sim fmt2f L report verification_results [])"

text \<open>\<^verbatim>\<open>should_flag_for_review\<close>\<close>

definition should_flag_for_review :: "DriftAdjustedResult \<Rightarrow> bool" where
  "should_flag_for_review a =
     (if \<not> is_stable a then True
      else if category (original_result a) = CONTRADICTED \<and> adjusted_confidence a < 0.7 then True
      else if confidence (original_result a) - adjusted_confidence a > 0.2 then True
      else False)"

text \<open>
  A layer with the default settings, a report with one unstable and one stable claim, and
  stand-ins for the embedding similarity and the float rendering.
\<close>

definition default_drift :: DriftMitigationLayer where
  "default_drift = DriftMitigationLayer_init None None"

definition example_report :: DriftReport where
  "example_report =
     \<lparr> claim_drifts =
         [\<lparr> drift_claim = ''claim_3'', drift_score = 0.6, cd_is_stable = False \<rparr>,
          \<lparr> drift_claim = ''claim_0'', drift_score = 0.1, cd_is_stable = True \<rparr>] \<rparr>"

definition no_similarity :: "string \<Rightarrow> string \<Rightarrow> real" where
  "no_similarity a b = 0"

definition plain_fmt :: "real \<Rightarrow> string" where
  "plain_fmt x = ''?''"

subsection \<open>Layer 4: verification (\<^verbatim>\<open>src/layers/verification.py\<close>)\<close>

text \<open>
  The library functions that the layer calls are parameters: \<open>seq_ratio a b\<close> is
  \<^verbatim>\<open>SequenceMatcher(None, a, b).ratio()\<close>, \<open>findall_numbers s\<close> is
  \<^verbatim>\<open>re.findall(r'\b\d+\.?\d*\b', s)\<close>, and \<open>format_2f x\<close> is the rendering \<^verbatim>\<open>{x:.2f}\<close>.
\<close>

record pylib =
  seq_ratio :: "string \<Rightarrow> string \<Rightarrow> real"
  findall_numbers :: "string \<Rightarrow> string list"
  format_2f :: "real \<Rightarrow> string"

text \<open>
  The attributes of the layer: the classifier (its method
  \<^verbatim>\<open>classify_with_multiple_evidences(claim_text, evidence_texts, aggregation="max")\<close>) and the
  entity match threshold.
\<close>

record VerificationLayer =
  nli_model :: "string \<Rightarrow> string list \<Rightarrow> NLIResult"
  v_domain :: Domain
  entity_match_threshold :: real

definition VerificationLayer_init ::
  "(string \<Rightarrow> string list \<Rightarrow> NLIResult) \<Rightarrow> Domain \<Rightarrow> real option \<Rightarrow> VerificationLayer" where
  "VerificationLayer_init nli d emt =
     \<lparr> nli_model = nli, v_domain = d,
       entity_match_threshold = or_default emt DEFAULT_ENTITY_MATCH_THRESHOLD \<rparr>"

text \<open>\<^verbatim>\<open>EvidenceResult.get_combined_evidence\<close>: the first chunks joined by a blank line.\<close>

definition get_combined_evidence :: "EvidenceResult \<Rightarrow> nat \<Rightarrow> string" where
  "get_combined_evidence ev max_chunks =
     join [CHR 0x0A, CHR 0x0A] (map content (take max_chunks (evidence_chunks ev)))"

text \<open>Python's \<^verbatim>\<open>str.split()\<close> on ASCII text: the maximal runs of non-whitespace.\<close>

definition is_space :: "char \<Rightarrow> bool" where
  "is_space c = (let n = (of_char c :: nat) in (9 \<le> n \<and> n \<le> 13) \<or> (28 \<le> n \<and> n \<le> 32))"

fun split_aux :: "string \<Rightarrow> string \<Rightarrow> string list" where
  "split_aux cur [] = (if cur = [] then [] else [cur])"
| "split_aux cur (c # cs) =
     (if is_space c then (if cur = [] then split_aux [] cs else cur # split_aux [] cs)
      else split_aux (cur @ [c]) cs)"

definition split :: "string \<Rightarrow> string list" where
  "split s = split_aux [] s"

text \<open>
  \<^verbatim>\<open>_find_similar_entity\<close>: the candidates are the n-grams of the words of the text, for
  \<open>n\<close> from 1 to 3, shorter ones first and each length from left to right; a candidate
  replaces the best one only when its ratio is strictly greater.
\<close>

definition ngram_candidates :: "string list \<Rightarrow> string list" where
  "ngram_candidates ws =
     concat (map (\<lambda>n. map (\<lambda>i. join '' '' (take n (drop i ws)))
                          [0 ..< length ws - n + 1])
                 [1 ..< min 4 (length ws + 1)])"

definition find_similar_entity :: "pylib \<Rightarrow> string \<Rightarrow> string \<Rightarrow> string \<times> real" where
  "find_similar_entity py entity text =
     fold (\<lambda>candidate (best_match, best_score).
             (let sc = seq_ratio py (lower entity) (lower candidate)
              in if sc > best_score then (candidate, sc) else (best_match, best_score)))
          (ngram_candidates (split text)) ('''', 0)"

text \<open>\<^verbatim>\<open>_check_entity_consistency\<close>: the body of the loop for one entity, and the loop.\<close>

definition check_entity :: "pylib \<Rightarrow> VerificationLayer \<Rightarrow> string \<Rightarrow> Entity \<Rightarrow> EntityMatch" where
  "check_entity py L evidence entity =
     (if is_substring (lower (entity_text entity)) (lower evidence) then
        \<lparr> claim_entity = entity, evidence_match = Some (entity_text entity),
          similarity = 1.0, is_match = True, is_contradiction = False,
          details = ''Exact match found in evidence'' \<rparr>
      else
        (case find_similar_entity py (entity_text entity) evidence of
           (best_match, best_score) \<Rightarrow>
             if best_score \<ge> entity_match_threshold L then
               \<lparr> claim_entity = entity, evidence_match = Some best_match,
                 similarity = best_score, is_match = True, is_contradiction = False,
                 details = ''Similar match: '' @ [CHR 0x27] @ best_match @ [CHR 0x27] @
                           '' (similarity: '' @ format_2f py best_score @ '')'' \<rparr>
             else if best_score \<ge> 0.5 then
               \<lparr> claim_entity = entity, evidence_match = Some best_match,
                 similarity = best_score, is_match = False, is_contradiction = True,
                 details = ''Possible entity mismatch: claim has '' @ [CHR 0x27] @
                           entity_text entity @ [CHR 0x27] @ '', evidence has '' @
                           [CHR 0x27] @ best_match @ [CHR 0x27] \<rparr>
             else
               \<lparr> claim_entity = entity, evidence_match = None,
                 similarity = 0, is_match = False, is_contradiction = False,
                 details = ''Entity '' @ [CHR 0x27] @ entity_text entity @ [CHR 0x27] @
                           '' not found in evidence'' \<rparr>))"

definition check_entity_consistency ::
  "pylib \<Rightarrow> VerificationLayer \<Rightarrow> Claim \<Rightarrow> string \<Rightarrow> EntityMatch list" where
  "check_entity_consistency py L claim evidence =
     map (check_entity py L evidence) (entities claim)"

text \<open>\<^verbatim>\<open>_check_numerical_consistency\<close>\<close>

definition check_numerical_consistency :: "pylib \<Rightarrow> Claim \<Rightarrow> string \<Rightarrow> real" where
  "check_numerical_consistency py claim evidence =
     (let claim_numbers = findall_numbers py (c_text claim);
          evidence_numbers = findall_numbers py evidence
      in if claim_numbers = [] then 1.0
         else real (length (filter (\<lambda>num. num \<in> set evidence_numbers) claim_numbers)) /
              real (length claim_numbers))"

text \<open>\<^verbatim>\<open>_calculate_entity_score\<close>\<close>

definition calculate_entity_score :: "EntityMatch list \<Rightarrow> real" where
  "calculate_entity_score matches =
     (if matches = [] then 1.0
      else
        (let total_weight = sum_list (map (\<lambda>m. severity_weight (claim_entity m)) matches);
             weighted_score =
               sum_list (map (\<lambda>m. similarity m * severity_weight (claim_entity m))
                             (filter is_match matches))
         in if total_weight > 0 then weighted_score / total_weight else 1.0))"

text \<open>\<^verbatim>\<open>_fuse_signals\<close>: the ordered decision rules.\<close>

definition fuse_signals ::
  "NLIResult \<Rightarrow> real \<Rightarrow> real \<Rightarrow> EntityMatch list \<Rightarrow> ClaimCategory \<times> real" where
  "fuse_signals nli entity_score numerical_score matches =
     (let has_entity_contradiction = list_ex is_contradiction matches
      in if entailment_score nli > 0.8 \<and> entity_score > 0.9 \<and> numerical_score > 0.8 \<and>
            \<not> has_entity_contradiction
         then (SUPPORTED, min (entailment_score nli) entity_score)
         else if contradiction_score nli > 0.7
         then (CONTRADICTED, contradiction_score nli)
         else if has_entity_contradiction \<and> entity_score < 0.7
         then (CONTRADICTED, max (contradiction_score nli) (1 - entity_score))
         else if numerical_score < 0.5
         then (CONTRADICTED, 0.7)
         else if entailment_score nli > 0.6 \<and> entity_score > 0.7 \<and> \<not> has_entity_contradiction
         then (SUPPORTED, entailment_score nli * entity_score)
         else (UNVERIFIABLE, max (neutral_score nli) 0.5))"

text \<open>Python's \<^verbatim>\<open>str.strip()\<close> on ASCII text.\<close>

definition strip :: "string \<Rightarrow> string" where
  "strip s = rev (dropWhile is_space (rev (dropWhile is_space s)))"

text \<open>\<^verbatim>\<open>_generate_explanation\<close>\<close>

definition generate_explanation ::
  "Claim \<Rightarrow> ClaimCategory \<Rightarrow> NLIResult \<Rightarrow> EntityMatch list \<Rightarrow> string \<Rightarrow> string" where
  "generate_explanation claim cat nli matches evidence =
     strip
       (case cat of
          SUPPORTED \<Rightarrow>
            ''The claim is supported by the evidence. '' @
            (if entailment_score nli > 0.9 then ''Strong semantic alignment detected. '' else []) @
            (let matched_entities = filter is_match matches
             in if matched_entities \<noteq> []
                then ''Key entities verified: '' @
                     join '', '' (map (\<lambda>m. entity_text (claim_entity m)) (take 3 matched_entities)) @
                     ''.''
                else [])
        | CONTRADICTED \<Rightarrow>
            ''The claim contradicts the evidence. '' @
            (if contradiction_score nli > 0.7 then ''Semantic contradiction detected. '' else []) @
            concat
              (map (\<lambda>m. ''Entity mismatch: claim says '' @ [CHR 0x27] @
                         entity_text (claim_entity m) @ [CHR 0x27] @ '' but evidence has '' @
                         [CHR 0x27] @
                         (case evidence_match m of Some s \<Rightarrow> s | None \<Rightarrow> ''None'') @
                         [CHR 0x27] @ ''. '')
                   (take 2 (filter is_contradiction matches)))
        | UNVERIFIABLE \<Rightarrow>
            ''The claim cannot be fully verified from the available evidence. '' @
            (let unmatched = filter (\<lambda>m. \<not> is_match m \<and> \<not> is_contradiction m) matches
             in if unmatched \<noteq> []
                then ''Missing information for: '' @
                     join '', '' (map (\<lambda>m. entity_text (claim_entity m)) (take 3 unmatched)) @
                     ''.''
                else []))"

text \<open>\<^verbatim>\<open>_create_unverifiable_result\<close>\<close>

definition create_unverifiable_result ::
  "Claim \<Rightarrow> EvidenceResult \<Rightarrow> string \<Rightarrow> VerificationResult" where
  "create_unverifiable_result claim evidence reason =
     \<lparr> vr_claim_id = c_claim_id claim, vr_claim_text = c_text claim,
       category = UNVERIFIABLE, confidence = 0.5, confidence_level = UNCERTAIN,
       nli_result = \<lparr> nli_category = UNVERIFIABLE, nli_confidence = 0.5,
                      nli_confidence_level = UNCERTAIN, entailment_score = 0,
                      contradiction_score = 0, neutral_score = 1 \<rparr>,
       entity_matches = [], evidence_used = '''', vr_citation = ''No citation available'',
       explanation = reason, entity_consistency_score = 0, numerical_accuracy_score = 0,
       temporal_consistency_score = 1.0 \<rparr>"

text \<open>
  \<^verbatim>\<open>verify_claim\<close>. The classifier is an outside model, so the function returns, next to
  the result, the list of the calls it made to the classifier (the claim text and the
  evidence texts of each call).
\<close>

type_synonym nli_call = "string \<times> string list"

definition verify_claim ::
  "pylib \<Rightarrow> VerificationLayer \<Rightarrow> Claim \<Rightarrow> EvidenceResult \<Rightarrow> nli_call list \<times> VerificationResult" where
  "verify_claim py L claim evidence =
     (let evidence_text = get_combined_evidence evidence 3
      in if evidence_text = [] then
           ([], create_unverifiable_result claim evidence ''No evidence found'')
         else
           (let texts = map content (take 3 (evidence_chunks evidence));
                nli = nli_model L (c_text claim) texts;
                matches = check_entity_consistency py L claim evidence_text;
                entity_score = calculate_entity_score matches;
                numerical_score = check_numerical_consistency py claim evidence_text;
                (final_category, final_confidence) =
                  fuse_signals nli entity_score numerical_score matches;
                expl = generate_explanation claim final_category nli matches evidence_text
            in ([(c_text claim, texts)],
                \<lparr> vr_claim_id = c_claim_id claim, vr_claim_text = c_text claim,
                  category = final_category, confidence = final_confidence,
                  confidence_level = from_score final_confidence,
                  nli_result = nli, entity_matches = matches,
                  evidence_used = evidence_text,
                  vr_citation =
                    (case ev_citation evidence of
                       None \<Rightarrow> ''No citation available''
                     | Some c \<Rightarrow> if c = [] then ''No citation available'' else c),
                  explanation = expl,
                  entity_consistency_score = entity_score,
                  numerical_accuracy_score = numerical_score,
                  temporal_consistency_score = 1.0 \<rparr>)))"

text \<open>
  \<^verbatim>\<open>verify_claims_batch\<close>: a \<^verbatim>\<open>ValueError\<close> when the lists differ in length; otherwise the
  loop over the zipped lists appends one result per pair.
\<close>

datatype py_error = ValueError string | ZeroDivisionError | IndexError

fun batch_loop ::
  "pylib \<Rightarrow> VerificationLayer \<Rightarrow> (Claim \<times> EvidenceResult) list \<Rightarrow>
   nli_call list \<times> VerificationResult list \<Rightarrow> nli_call list \<times> VerificationResult list" where
  "batch_loop py L [] acc = acc"
| "batch_loop py L ((claim, evidence) # rest) (calls, results) =
     (case verify_claim py L claim evidence of
        (cs, result) \<Rightarrow> batch_loop py L rest (calls @ cs, results @ [result]))"

definition verify_claims_batch ::
  "pylib \<Rightarrow> VerificationLayer \<Rightarrow> Claim list \<Rightarrow> EvidenceResult list \<Rightarrow>
   py_error + (nli_call list \<times> VerificationResult list)" where
  "verify_claims_batch py L claims evidences =
     (if length claims \<noteq> length evidences
      then Inl (ValueError ''Claims and evidences must have same length'')
      else Inr (batch_loop py L (zip claims evidences) ([], [])))"

text \<open>
  A model of the number pattern \<^verbatim>\<open>\b\d+\.?\d*\b\<close> on ASCII text, for the examples:
  \<open>match_number\<close> is the match that starts at a digit preceded by a word boundary, and
  \<open>scan_numbers\<close> is the left-to-right scan of \<^verbatim>\<open>re.findall\<close> (its arguments: whether the
  previous character is a word character, and how many characters of a match are still to
  be skipped).
\<close>

definition is_digit :: "char \<Rightarrow> bool" where
  "is_digit c = (let n = (of_char c :: nat) in 48 \<le> n \<and> n \<le> 57)"

definition is_word :: "char \<Rightarrow> bool" where
  "is_word c =
     (let n = (of_char c :: nat)
      in (48 \<le> n \<and> n \<le> 57) \<or> (65 \<le> n \<and> n \<le> 90) \<or> (97 \<le> n \<and> n \<le> 122) \<or> n = 95)"

definition match_number :: "string \<Rightarrow> string option" where
  "match_number s =
     (let ds = takeWhile is_digit s; r = dropWhile is_digit s
      in case r of
           [] \<Rightarrow> Some ds
         | c # r' \<Rightarrow>
             if c = CHR ''.'' then
               (let fs = takeWhile is_digit r'; t = dropWhile is_digit r'
                in if fs \<noteq> [] then
                     (case t of
                        [] \<Rightarrow> Some (ds @ ''.'' @ fs)
                      | x # _ \<Rightarrow> if is_word x then Some (ds @ ''.'') else Some (ds @ ''.'' @ fs))
                   else
                     (case t of
                        [] \<Rightarrow> Some ds
                      | x # _ \<Rightarrow> if is_word x then Some (ds @ ''.'') else Some ds))
             else if is_word c then None
             else Some ds)"

fun scan_numbers :: "bool \<Rightarrow> nat \<Rightarrow> string \<Rightarrow> string list" where
  "scan_numbers pw k [] = []"
| "scan_numbers pw (Suc k) (c # cs) = scan_numbers (is_word c) k cs"
| "scan_numbers pw 0 (c # cs) =
     (if is_digit c \<and> \<not> pw then
        (case match_number (c # cs) of
           Some m \<Rightarrow> m # scan_numbers (is_word c) (length m - 1) cs
         | None \<Rightarrow> scan_numbers True 0 cs)
      else scan_numbers (is_word c) 0 cs)"

definition ascii_findall_numbers :: "string \<Rightarrow> string list" where
  "ascii_findall_numbers s = scan_numbers False 0 s"

text \<open>
  Stand-ins for the examples: a similarity ratio that only recognises equal strings, the
  library record built from it, and classifiers that answer every call with the same scores.
\<close>

definition exact_ratio :: "string \<Rightarrow> string \<Rightarrow> real" where
  "exact_ratio a b = (if a = b then 1 else 0)"

definition example_py :: pylib where
  "example_py =
     \<lparr> seq_ratio = exact_ratio, findall_numbers = ascii_findall_numbers,
       format_2f = plain_fmt \<rparr>"

definition constant_nli :: "real \<Rightarrow> real \<Rightarrow> real \<Rightarrow> string \<Rightarrow> string list \<Rightarrow> NLIResult" where
  "constant_nli e c n text evidences =
     \<lparr> nli_category = (if e \<ge> c \<and> e \<ge> n then SUPPORTED
                        else if c \<ge> n then CONTRADICTED else UNVERIFIABLE),
       nli_confidence = max e (max c n),
       nli_confidence_level = from_score (max e (max c n)),
       entailment_score = e, contradiction_score = c, neutral_score = n \<rparr>"

definition mk_claim :: "string \<Rightarrow> string \<Rightarrow> Entity list \<Rightarrow> Claim" where
  "mk_claim cid txt ents =
     \<lparr> c_claim_id = cid, c_text = txt, source_sentence = txt, source_start = 0,
       source_end = int (length txt), entities = ents, is_atomic = True \<rparr>"

definition mk_chunk :: "string \<Rightarrow> string \<Rightarrow> string \<Rightarrow> IndexedChunk" where
  "mk_chunk cid doc txt =
     \<lparr> chunk_id = cid, content = txt, document_id = doc, document_name = doc,
       chunk_index = 0, start_char = 0, end_char = int (length txt),
       page_number = None, metadata = Map.empty \<rparr>"

definition mk_evidence :: "Claim \<Rightarrow> (IndexedChunk \<times> real) list \<Rightarrow> EvidenceResult" where
  "mk_evidence claim rs =
     \<lparr> ev_claim_id = c_claim_id claim, ev_claim_text = c_text claim,
       evidence_chunks = map fst rs, scores = map snd rs, retrieval_method = ''hybrid'',
       top_evidence = (case rs of [] \<Rightarrow> None | r # _ \<Rightarrow> Some (content (fst r))),
       ev_citation = (case rs of [] \<Rightarrow> None | r # _ \<Rightarrow> Some (document_name (fst r))) \<rparr>"

text \<open>The scenario of the specification: the claim says 324 metres, the evidence 330.\<close>

definition tower_claim :: Claim where
  "tower_claim = mk_claim ''claim_0'' ''The tower is 324 meters tall'' []"

definition tower_evidence :: EvidenceResult where
  "tower_evidence =
     mk_evidence tower_claim
       [(mk_chunk ''chunk_0'' ''tower.txt'' ''The tower is 330 metres tall'', 0.9)]"

definition no_evidence :: EvidenceResult where
  "no_evidence = mk_evidence tower_claim []"

text \<open>Two layers that differ only in what the classifier answers.\<close>

definition neutral_layer :: VerificationLayer where
  "neutral_layer = VerificationLayer_init (constant_nli 0.1 0.2 0.7) GENERAL None"

definition contradicting_layer :: VerificationLayer where
  "contradicting_layer = VerificationLayer_init (constant_nli 0.1 0.9 0) GENERAL None"

text \<open>A claim that names one entity, and a layer whose classifier reports entailment.\<close>

definition paris_claim :: Claim where
  "paris_claim =
     mk_claim ''claim_1'' ''Paris is the capital of France''
       [\<lparr> entity_text = ''Paris'', entity_label = ''GPE'', entity_start = 0,
          entity_end = 5, severity_weight = 1.1 \<rparr>]"

definition chunk_a :: IndexedChunk where
  "chunk_a = mk_chunk ''chunk_a'' ''a.txt'' ''France is a country in Europe''"

definition chunk_b :: IndexedChunk where
  "chunk_b = mk_chunk ''chunk_b'' ''b.txt'' ''The capital of France is Paris''"

definition paris_evidence :: EvidenceResult where
  "paris_evidence = mk_evidence paris_claim [(chunk_a, 0.9), (chunk_b, 0.85)]"

definition supporting_layer :: VerificationLayer where
  "supporting_layer = VerificationLayer_init (constant_nli 0.9 0.05 0.05) GENERAL None"

subsection \<open>Layer 3: retrieval (\<^verbatim>\<open>src/layers/retrieval.py\<close>)\<close>

text \<open>\<^verbatim>\<open>EvidenceResult.get_citation_string\<close>\<close>

definition get_citation_string :: "EvidenceResult \<Rightarrow> string" where
  "get_citation_string ev =
     (case evidence_chunks ev of
        [] \<Rightarrow> ''No evidence found''
      | chunk # _ \<Rightarrow>
          join '', ''
            ([document_name chunk] @
             (case page_number chunk of
                None \<Rightarrow> []
              | Some p \<Rightarrow> if p \<noteq> 0 then [''Page '' @ str_int p] else []) @
             (case metadata chunk ''line_start'' of
                None \<Rightarrow> []
              | Some v \<Rightarrow>
                  if truthy v
                  then [''Lines '' @ fmt v @ ''-'' @
                        (case metadata chunk ''line_end'' of None \<Rightarrow> ''?'' | Some w \<Rightarrow> fmt w)]
                  else [])))"

text \<open>
  The attributes of the layer: its settings and the keyword index, which is absent until
  \<^verbatim>\<open>build_bm25_index\<close> sets it. The index object of the library is determined by the
  tokenized corpus it was built from, so \<open>bm25_index\<close> holds that corpus.
\<close>

record RetrievalLayer =
  top_k :: nat
  similarity_threshold :: real
  vector_weight :: real
  keyword_weight :: real
  bm25_index :: "string list list option"
  bm25_chunks :: "IndexedChunk list option"

definition RetrievalLayer_init ::
  "nat option \<Rightarrow> real option \<Rightarrow> real option \<Rightarrow> real option \<Rightarrow> RetrievalLayer" where
  "RetrievalLayer_init k st vw kw =
     \<lparr> top_k = or_default k DEFAULT_TOP_K,
       similarity_threshold = or_default st DEFAULT_SIMILARITY_THRESHOLD,
       vector_weight = or_default vw DEFAULT_HYBRID_WEIGHT_VECTOR,
       keyword_weight = or_default kw DEFAULT_HYBRID_WEIGHT_KEYWORD,
       bm25_index = None, bm25_chunks = None \<rparr>"

type_synonym scored = "IndexedChunk \<times> real"

text \<open>
  \<^verbatim>\<open>ingestion.DocumentIndex\<close>: its chunks, and what its method \<^verbatim>\<open>search\<close> returns for the
  embedding of a query and a number of results (the embedding model and the FAISS index
  are outside libraries).
\<close>

record DocumentIndex =
  chunks :: "IndexedChunk list"
  index_search :: "string \<Rightarrow> nat \<Rightarrow> scored list"

text \<open>\<^verbatim>\<open>vector_search\<close>\<close>

definition vector_search ::
  "RetrievalLayer \<Rightarrow> DocumentIndex \<Rightarrow> string \<Rightarrow> nat option \<Rightarrow> scored list" where
  "vector_search L doc_index query k0 = index_search doc_index query (or_default k0 (top_k L))"

text \<open>
  The library behind the keyword search. \<open>get_scores corpus tokens\<close> is
  \<^verbatim>\<open>BM25Okapi(corpus).get_scores(tokens)\<close> and \<open>argsort\<close> is \<^verbatim>\<open>numpy.argsort\<close>; both are
  parameters. The constructor \<^verbatim>\<open>BM25Okapi(corpus)\<close> computes the average document length as
  a quotient by the number of documents, so it raises \<^verbatim>\<open>ZeroDivisionError\<close> on an empty
  corpus.
\<close>

record bm25_library =
  get_scores :: "string list list \<Rightarrow> string list \<Rightarrow> real list"
  argsort :: "real list \<Rightarrow> nat list"

definition BM25Okapi :: "string list list \<Rightarrow> py_error + string list list" where
  "BM25Okapi corpus = (if corpus = [] then Inl ZeroDivisionError else Inr corpus)"

text \<open>\<^verbatim>\<open>build_bm25_index\<close>: the attributes are set only when the constructor returns.\<close>

definition build_bm25_index :: "RetrievalLayer \<Rightarrow> IndexedChunk list \<Rightarrow> py_error + RetrievalLayer" where
  "build_bm25_index L cs =
     (case BM25Okapi (map (\<lambda>chunk. split (lower (content chunk))) cs) of
        Inl e \<Rightarrow> Inl e
      | Inr idx \<Rightarrow> Inr (L\<lparr>bm25_index := Some idx, bm25_chunks := Some cs\<rparr>))"

text \<open>
  The loop of \<^verbatim>\<open>keyword_search\<close> over the top indices: an index is kept with its chunk when
  its score is positive; an index outside the scores or the chunks raises
  \<^verbatim>\<open>IndexError\<close>.
\<close>

fun collect_results :: "IndexedChunk list \<Rightarrow> real list \<Rightarrow> nat list \<Rightarrow> py_error + scored list" where
  "collect_results cs scs [] = Inr []"
| "collect_results cs scs (idx # rest) =
     (if idx \<ge> length scs then Inl IndexError
      else if scs ! idx > 0 then
        (if idx \<ge> length cs then Inl IndexError
         else (case collect_results cs scs rest of
                 Inl e \<Rightarrow> Inl e
               | Inr results \<Rightarrow> Inr ((cs ! idx, scs ! idx) # results)))
      else collect_results cs scs rest)"

text \<open>
  \<^verbatim>\<open>keyword_search\<close>: the index is rebuilt when chunks are passed; without an index, or
  with an empty chunk list, the result is empty; otherwise the scores of the query tokens
  are ranked by \<^verbatim>\<open>argsort\<close>, reversed and cut to \<open>k\<close>. The layer is returned with the
  result, since the call may set its index.
\<close>

definition keyword_search ::
  "RetrievalLayer \<Rightarrow> bm25_library \<Rightarrow> string \<Rightarrow> IndexedChunk list option \<Rightarrow> nat option \<Rightarrow>
   py_error + (scored list \<times> RetrievalLayer)" where
  "keyword_search L lib query cs k0 =
     (let k = or_default k0 (top_k L)
      in case (case cs of
                 None \<Rightarrow> Inr L
               | Some given \<Rightarrow> if given = [] then Inr L else build_bm25_index L given) of
           Inl e \<Rightarrow> Inl e
         | Inr L1 \<Rightarrow>
             (case bm25_index L1 of
                None \<Rightarrow> Inr ([], L1)
              | Some idx \<Rightarrow>
                  (case bm25_chunks L1 of
                     None \<Rightarrow> Inr ([], L1)
                   | Some held \<Rightarrow>
                       if held = [] then Inr ([], L1)
                       else
                         (let query_tokens = split (lower query);
                              scs = get_scores lib idx query_tokens;
                              top_indices = take k (rev (argsort lib scs))
                          in case collect_results held scs top_indices of
                               Inl e \<Rightarrow> Inl e
                             | Inr results \<Rightarrow> Inr (results, L1)))))"

text \<open>
  The dictionary \<^verbatim>\<open>combined\<close> of \<^verbatim>\<open>hybrid_search\<close>, from chunk id to the chunk with its
  normalised vector and keyword scores, as an association list in insertion order:
  assigning to a key that is present replaces its value in place, assigning to a new key
  appends.
\<close>

type_synonym combined = "(string \<times> IndexedChunk \<times> real \<times> real) list"

fun dict_set :: "'k \<Rightarrow> 'v \<Rightarrow> ('k \<times> 'v) list \<Rightarrow> ('k \<times> 'v) list" where
  "dict_set k v [] = [(k, v)]"
| "dict_set k v ((k', v') # d) =
     (if k = k' then (k, v) # d else (k', v') # dict_set k v d)"

text \<open>The maximum of the scores of a non-empty result list, and the division by it.\<close>

definition max_score :: "scored list \<Rightarrow> real" where
  "max_score rs = fold max (map snd (tl rs)) (snd (hd rs))"

definition normalize_score :: "real \<Rightarrow> real \<Rightarrow> real" where
  "normalize_score m s = (if m > 0 then s / m else 0)"

definition process_vector :: "scored list \<Rightarrow> combined" where
  "process_vector vector_results =
     (if vector_results = [] then []
      else fold (\<lambda>(chunk, s) d.
                   dict_set (chunk_id chunk)
                     (chunk, normalize_score (max_score vector_results) s, 0) d)
                vector_results [])"

definition process_keyword :: "scored list \<Rightarrow> combined \<Rightarrow> combined" where
  "process_keyword keyword_results d0 =
     (if keyword_results = [] then d0
      else fold (\<lambda>(chunk, s) d.
                   (case map_of d (chunk_id chunk) of
                      Some (c, vs, ks) \<Rightarrow>
                        dict_set (chunk_id chunk)
                          (c, vs, normalize_score (max_score keyword_results) s) d
                    | None \<Rightarrow>
                        dict_set (chunk_id chunk)
                          (chunk, 0, normalize_score (max_score keyword_results) s) d))
                keyword_results d0)"

text \<open>The list \<^verbatim>\<open>results\<close> of \<^verbatim>\<open>hybrid_search\<close> before it is sorted: the final scores.\<close>

definition fuse :: "RetrievalLayer \<Rightarrow> scored list \<Rightarrow> scored list \<Rightarrow> scored list" where
  "fuse L vector_results keyword_results =
     map (\<lambda>(cid, chunk, vs, ks). (chunk, vector_weight L * vs + keyword_weight L * ks))
         (process_keyword keyword_results (process_vector vector_results))"

text \<open>
  \<^verbatim>\<open>list.sort(key=lambda x: x[1], reverse=True)\<close>: a stable sort, descending by score.
\<close>

definition sort_desc :: "scored list \<Rightarrow> scored list" where
  "sort_desc rs = sort_key (\<lambda>x. - snd x) rs"

text \<open>
  \<^verbatim>\<open>hybrid_search\<close>: the keyword index is built from the chunks of the document index
  when the layer has none; then both searches run with \<open>2k\<close> candidates and their results
  are fused, sorted and cut to \<open>k\<close>.
\<close>

definition hybrid_search ::
  "RetrievalLayer \<Rightarrow> bm25_library \<Rightarrow> DocumentIndex \<Rightarrow> string \<Rightarrow> nat option \<Rightarrow>
   py_error + (scored list \<times> RetrievalLayer)" where
  "hybrid_search L lib doc_index query k0 =
     (let k = or_default k0 (top_k L)
      in case (if bm25_index L = None then build_bm25_index L (chunks doc_index) else Inr L) of
           Inl e \<Rightarrow> Inl e
         | Inr L1 \<Rightarrow>
             (let vector_results = vector_search L1 doc_index query (Some (k * 2))
              in case keyword_search L1 lib query None (Some (k * 2)) of
                   Inl e \<Rightarrow> Inl e
                 | Inr (keyword_results, L2) \<Rightarrow>
                     Inr (take k (sort_desc (fuse L2 vector_results keyword_results)), L2)))"

text \<open>
  \<^verbatim>\<open>retrieve_evidence\<close>: first the choice of the search method (lines 282 to 289 of the
  source); an error of the search is the outcome of the call.
\<close>

definition search_results ::
  "RetrievalLayer \<Rightarrow> bm25_library \<Rightarrow> DocumentIndex \<Rightarrow> Claim \<Rightarrow> string \<Rightarrow>
   py_error + (scored list \<times> RetrievalLayer)" where
  "search_results L lib doc_index claim method =
     (if method = ''vector'' then Inr (vector_search L doc_index (c_text claim) None, L)
      else if method = ''keyword'' then
        (case (if bm25_index L = None then build_bm25_index L (chunks doc_index) else Inr L) of
           Inl e \<Rightarrow> Inl e
         | Inr L1 \<Rightarrow> keyword_search L1 lib (c_text claim) None None)
      else hybrid_search L lib doc_index (c_text claim) None)"

text \<open>
  Lines 291 to 299 of \<^verbatim>\<open>retrieve_evidence\<close>: the results that reach the similarity
  threshold, or else the first result alone.
\<close>

definition threshold_results :: "RetrievalLayer \<Rightarrow> scored list \<Rightarrow> scored list" where
  "threshold_results L results =
     (let above = filter (\<lambda>(chunk, s). s \<ge> similarity_threshold L) results
      in if above = [] then take 1 results else above)"

definition retrieve_evidence ::
  "RetrievalLayer \<Rightarrow> bm25_library \<Rightarrow> DocumentIndex \<Rightarrow> Claim \<Rightarrow> string \<Rightarrow>
   py_error + (EvidenceResult \<times> RetrievalLayer)" where
  "retrieve_evidence L lib doc_index claim method =
     (case search_results L lib doc_index claim method of
        Inl e \<Rightarrow> Inl e
      | Inr (results, L') \<Rightarrow>
          (let filtered_results = threshold_results L' results;
               cs = map fst filtered_results;
               evidence_result =
                 \<lparr> ev_claim_id = c_claim_id claim, ev_claim_text = c_text claim,
                   evidence_chunks = cs, scores = map snd filtered_results,
                   retrieval_method = method,
                   top_evidence = (case cs of [] \<Rightarrow> None | c # _ \<Rightarrow> Some (content c)),
                   ev_citation = None \<rparr>
           in Inr (if cs \<noteq> []
                   then evidence_result\<lparr>ev_citation := Some (get_citation_string evidence_result)\<rparr>
                   else evidence_result, L')))"

text \<open>
  \<^verbatim>\<open>rerank_by_entity_match\<close>. The set of the lowercased entity texts is a list without
  duplicates; only the number of its members that occur in a chunk is used.
\<close>

definition entity_bonus :: "string list \<Rightarrow> IndexedChunk \<Rightarrow> real" where
  "entity_bonus claim_entities chunk =
     real (length (filter (\<lambda>e. is_substring e (lower (content chunk))) claim_entities)) * 0.1"

definition rerank_by_entity_match :: "Claim \<Rightarrow> EvidenceResult \<Rightarrow> EvidenceResult" where
  "rerank_by_entity_match claim evidence_result =
     (if entities claim = [] \<or> evidence_chunks evidence_result = [] then evidence_result
      else
        (let claim_entities = remdups (map (\<lambda>e. lower (entity_text e)) (entities claim));
             reranked =
               sort_desc
                 (map (\<lambda>(chunk, base_score).
                         (chunk, min (base_score + entity_bonus claim_entities chunk) 1.0))
                      (zip (evidence_chunks evidence_result) (scores evidence_result)))
         in \<lparr> ev_claim_id = ev_claim_id evidence_result,
              ev_claim_text = ev_claim_text evidence_result,
              evidence_chunks = map fst reranked,
              scores = map snd reranked,
              retrieval_method = retrieval_method evidence_result @ ''+entity_rerank'',
              top_evidence = (case reranked of [] \<Rightarrow> None | r # _ \<Rightarrow> Some (content (fst r))),
              ev_citation =
                (if reranked \<noteq> [] then Some (get_citation_string evidence_result)
                 else None) \<rparr>))"

text \<open>
  For the examples: a document index of two chunks whose vector search finds both for
  every query, the index that ingestion builds when there is no document, and stand-ins for
  the library (the score of a document is the number of query tokens it holds; the ranking
  is a stable sort of the positions).
\<close>

definition example_index :: DocumentIndex where
  "example_index =
     \<lparr> chunks = [chunk_b, chunk_a],
       index_search = (\<lambda>query k. take k [(chunk_b, 0.4), (chunk_a, 0.2)]) \<rparr>"

definition empty_index :: DocumentIndex where
  "empty_index = \<lparr> chunks = [], index_search = (\<lambda>query k. []) \<rparr>"

definition overlap_scores :: "string list list \<Rightarrow> string list \<Rightarrow> real list" where
  "overlap_scores corpus tokens =
     map (\<lambda>doc. real (length (filter (\<lambda>t. t \<in> set doc) tokens))) corpus"

definition stable_argsort :: "real list \<Rightarrow> nat list" where
  "stable_argsort scs = sort_key (\<lambda>i. scs ! i) [0 ..< length scs]"

definition example_lib :: bm25_library where
  "example_lib = \<lparr> get_scores = overlap_scores, argsort = stable_argsort \<rparr>"

definition default_retrieval :: RetrievalLayer where
  "default_retrieval = RetrievalLayer_init None None None None"

text \<open>A result list is ranked when its scores never increase from one entry to the next.\<close>

definition ranked :: "scored list \<Rightarrow> bool" where
  "ranked rs = sorted_wrt (\<lambda>a b. snd a \<ge> snd b) rs"

text \<open>The final score that \<^verbatim>\<open>hybrid_search\<close> gives to the chunk of a given id, if any.\<close>

definition fused_score ::
  "RetrievalLayer \<Rightarrow> scored list \<Rightarrow> scored list \<Rightarrow> string \<Rightarrow> real option" where
  "fused_score L vector_results keyword_results cid =
     map_of (map (\<lambda>(chunk, s). (chunk_id chunk, s)) (fuse L vector_results keyword_results)) cid"


section \<open>Properties\<close>

subsection \<open>Scoring\<close>

lemma fold_count_result:
  "fold count_result rs st =
     \<lparr> supported = supported st + length (filter (\<lambda>r. category r = SUPPORTED) rs),
       contradicted = contradicted st + length (filter (\<lambda>r. category r = CONTRADICTED) rs),
       unverifiable = unverifiable st +
         length (filter (\<lambda>r. category r \<noteq> SUPPORTED \<and> category r \<noteq> CONTRADICTED) rs) \<rparr>"
  by (induction rs arbitrary: st) (auto simp: count_result_def)

lemma contradicted_stats:
  "contradicted (calculate_category_stats rs) =
     length (filter (\<lambda>r. category r = CONTRADICTED) rs)"
  by (simp add: calculate_category_stats_def fold_count_result)

lemma total_stats: "stats_total (calculate_category_stats rs) = length rs"
proof -
  have "length (filter (\<lambda>r. category r = SUPPORTED) rs) +
        length (filter (\<lambda>r. category r = CONTRADICTED) rs) +
        length (filter (\<lambda>r. category r \<noteq> SUPPORTED \<and> category r \<noteq> CONTRADICTED) rs) =
        length rs"
    by (induction rs) auto
  then show ?thesis
    by (simp add: calculate_category_stats_def fold_count_result stats_total_def)
qed

lemma level_calculate_trust_score:
  "rs \<noteq> [] \<Longrightarrow>
   level (calculate_trust_score L rs dr cl) =
     determine_trust_level (final_score L rs dr cl) (calculate_category_stats rs)"
  by (simp add: calculate_trust_score_def Let_def split: prod.splits)

text \<open>
  Claim C1, as the code has it. For every non-empty list of verification results the trust
  level is: high if the final (clamped, unrounded) score is at least 80 and no result is
  contradicted; otherwise medium if the score is at least 50; otherwise critical if the
  number of contradicted results exceeds 30% of the results; otherwise low. The medium test
  comes before the critical test, so critical is only assigned below a score of 50.
\<close>

theorem trust_level_priority:
  assumes "rs \<noteq> []"
  shows "level (calculate_trust_score L rs dr cl) =
     (if final_score L rs dr cl \<ge> 80 \<and>
         length (filter (\<lambda>r. category r = CONTRADICTED) rs) = 0 then HIGH
      else if final_score L rs dr cl \<ge> 50 then MEDIUM
      else if real (length (filter (\<lambda>r. category r = CONTRADICTED) rs)) > real (length rs) * 0.3
        then CRITICAL
      else LOW)"
  using assms
  by (simp add: level_calculate_trust_score determine_trust_level_def contradicted_stats
      total_stats)

theorem trust_level_priority_witness:
  "two_contradicted \<noteq> [] \<and>
   final_score default_scoring two_contradicted None None = 23 \<and>
   level (calculate_trust_score default_scoring two_contradicted None None) = CRITICAL"
proof -
  have ne: "two_contradicted \<noteq> []"
    by (simp add: two_contradicted_def)
  have fs: "final_score default_scoring two_contradicted None None = 23"
    by code_simp
  have n: "length (filter (\<lambda>r. category r = CONTRADICTED) two_contradicted) = 2"
    by (simp add: two_contradicted_def mk_result_def)
  have l: "length two_contradicted = 2"
    by (simp add: two_contradicted_def)
  show ?thesis
    using trust_level_priority [OF ne, of default_scoring None None] ne fs n l by simp
qed

text \<open>
  Claim C1 as stated fails on the scenario of the specification: two of the five results are
  contradicted (more than 30%), the level is not high, the score is 74, and the level
  assigned is medium, not critical.
\<close>

theorem trust_level_critical_counterexample:
  "contradicted (category_counts (calculate_trust_score default_scoring five_results None None)) = 2 \<and>
   total_claims (calculate_trust_score default_scoring five_results None None) = 5 \<and>
   real 2 > real 5 * 0.3 \<and>
   final_score default_scoring five_results None None = 74 \<and>
   level (calculate_trust_score default_scoring five_results None None) = MEDIUM \<and>
   level (calculate_trust_score default_scoring five_results None None) \<noteq> CRITICAL"
  by code_simp

subsection \<open>Drift mitigation\<close>

lemma adjust_loop_map:
  "adjust_loop sim fmt2f L report rs acc = acc @ map (adjust_result sim fmt2f L report) rs"
  by (induction rs arbitrary: acc) auto

lemma adjust_verification_results_map:
  "adjust_verification_results sim fmt2f L rs dr =
     map (adjust_result sim fmt2f L
            (case dr of Some r \<Rightarrow> Some r | None \<Rightarrow> cached_drift_report L)) rs"
  by (simp add: adjust_verification_results_def adjust_loop_map)

lemma calculate_penalty_bounds:
  assumes "0 \<le> confidence_penalty L"
  shows "0 \<le> calculate_penalty L d" and "calculate_penalty L d \<le> 0.5"
proof -
  show "0 \<le> calculate_penalty L d"
  proof (cases "d \<le> variance_threshold L")
    case True
    then show ?thesis by (simp add: calculate_penalty_def)
  next
    case False
    then have "0 \<le> (d - variance_threshold L) * confidence_penalty L * 5"
      using assms by simp
    with False show ?thesis by (simp add: calculate_penalty_def Let_def)
  qed
  show "calculate_penalty L d \<le> 0.5"
    by (simp add: calculate_penalty_def Let_def min_def)
qed

lemma adjust_result_original: "original_result (adjust_result sim fmt2f L report r) = r"
  by (simp add: adjust_result_def Let_def split: option.splits)

lemma adjust_result_confidence:
  "adjusted_confidence (adjust_result sim fmt2f L report r) =
     confidence r * (1 - drift_penalty (adjust_result sim fmt2f L report r))"
  by (simp add: adjust_result_def Let_def split: option.splits)

lemma adjust_result_penalty_bounds:
  assumes "0 \<le> confidence_penalty L"
  shows "0 \<le> drift_penalty (adjust_result sim fmt2f L report r) \<and>
         drift_penalty (adjust_result sim fmt2f L report r) \<le> 0.5"
  using calculate_penalty_bounds [OF assms]
  by (simp add: adjust_result_def Let_def split: option.splits)

text \<open>
  Claim C5. The penalty is 0 up to the variance threshold and
  \<open>min ((d - threshold) * confidence_penalty * 5) 0.5\<close> above it; with a positive penalty
  factor it is strictly increasing above the threshold as long as it has not reached the cap
  of 0.5; and a result whose matching drift entry is unstable gets that penalty and the
  adjusted confidence \<open>confidence * (1 - penalty)\<close>.
\<close>

theorem drift_penalty_formula:
  "(d \<le> variance_threshold L \<longrightarrow> calculate_penalty L d = 0) \<and>
   (d > variance_threshold L \<longrightarrow>
      calculate_penalty L d =
        min ((d - variance_threshold L) * confidence_penalty L * 5) 0.5) \<and>
   (0 < confidence_penalty L \<and> variance_threshold L < d \<and> d < d' \<and>
    calculate_penalty L d < 0.5 \<longrightarrow> calculate_penalty L d < calculate_penalty L d') \<and>
   (find_claim_drift sim (vr_claim_text r) report = Some cd \<and> \<not> cd_is_stable cd \<longrightarrow>
      drift_penalty (adjust_result sim fmt2f L report r) = calculate_penalty L (drift_score cd) \<and>
      adjusted_confidence (adjust_result sim fmt2f L report r) =
        confidence r * (1 - calculate_penalty L (drift_score cd)))"
proof (intro conjI impI)
  show "calculate_penalty L d = 0" if "d \<le> variance_threshold L"
    using that by (simp add: calculate_penalty_def)
  show "calculate_penalty L d = min ((d - variance_threshold L) * confidence_penalty L * 5) 0.5"
    if "d > variance_threshold L"
    using that by (simp add: calculate_penalty_def Let_def)
  show "calculate_penalty L d < calculate_penalty L d'"
    if h: "0 < confidence_penalty L \<and> variance_threshold L < d \<and> d < d' \<and>
           calculate_penalty L d < 0.5"
  proof -
    let ?t = "variance_threshold L" and ?c = "confidence_penalty L"
    from h have pd: "calculate_penalty L d = min ((d - ?t) * ?c * 5) 0.5"
      and pd': "calculate_penalty L d' = min ((d' - ?t) * ?c * 5) 0.5"
      by (simp_all add: calculate_penalty_def Let_def)
    from h pd have below: "(d - ?t) * ?c * 5 < 0.5" and eq: "calculate_penalty L d = (d - ?t) * ?c * 5"
      by (simp_all add: min_def split: if_splits)
    from h have "(d - ?t) * ?c < (d' - ?t) * ?c"
      by (simp add: mult_strict_right_mono)
    then have "(d - ?t) * ?c * 5 < (d' - ?t) * ?c * 5"
      by simp
    with below eq pd' show ?thesis
      by (simp add: min_def)
  qed
next
  assume h: "find_claim_drift sim (vr_claim_text r) report = Some cd \<and> \<not> cd_is_stable cd"
  then show "drift_penalty (adjust_result sim fmt2f L report r) =
      calculate_penalty L (drift_score cd)"
    by (simp add: adjust_result_def Let_def)
  from h show "adjusted_confidence (adjust_result sim fmt2f L report r) =
      confidence r * (1 - calculate_penalty L (drift_score cd))"
    by (simp add: adjust_result_def Let_def)
qed

theorem drift_penalty_formula_witness:
  "calculate_penalty default_drift 0.1 = 0 \<and>
   calculate_penalty default_drift 0.6 = 0.2 \<and>
   calculate_penalty default_drift 0.6 < calculate_penalty default_drift 0.8 \<and>
   adjusted_confidence
     (adjust_result no_similarity plain_fmt default_drift (Some example_report)
        (mk_result ''claim_3'' CONTRADICTED 0.8)) = 0.8 * (1 - 0.2)"
proof -
  have thr: "variance_threshold default_drift = 0.2" and cp: "confidence_penalty default_drift = 0.1"
    by (simp_all add: default_drift_def DriftMitigationLayer_init_def or_default_def
        DEFAULT_DRIFT_VARIANCE_THRESHOLD_def DEFAULT_DRIFT_CONFIDENCE_PENALTY_def)
  have found: "find_claim_drift no_similarity (vr_claim_text (mk_result ''claim_3'' CONTRADICTED 0.8))
      (Some example_report) = Some \<lparr> drift_claim = ''claim_3'', drift_score = 0.6, cd_is_stable = False \<rparr>"
    by (simp add: find_claim_drift_def example_report_def mk_result_def)
  have h1: "(0.1::real) \<le> variance_threshold default_drift"
    and h2: "(0.6::real) > variance_threshold default_drift"
    by (simp_all add: thr)
  have low: "calculate_penalty default_drift 0.1 = 0"
    using drift_penalty_formula [where d = "0.1" and L = default_drift] h1 by blast
  have "calculate_penalty default_drift 0.6 =
      min ((0.6 - variance_threshold default_drift) * confidence_penalty default_drift * 5) 0.5"
    using drift_penalty_formula [where d = "0.6" and L = default_drift] h2 by blast
  then have mid: "calculate_penalty default_drift 0.6 = 0.2"
    by (simp add: thr cp)
  have h3: "0 < confidence_penalty default_drift \<and> variance_threshold default_drift < 0.6 \<and>
      (0.6::real) < 0.8 \<and> calculate_penalty default_drift 0.6 < 0.5"
    using mid by (simp add: thr cp)
  have incr: "calculate_penalty default_drift 0.6 < calculate_penalty default_drift 0.8"
    using drift_penalty_formula [where d = "0.6" and d' = "0.8" and L = default_drift] h3
    by blast
  have h4: "find_claim_drift no_similarity (vr_claim_text (mk_result ''claim_3'' CONTRADICTED 0.8))
      (Some example_report) =
        Some \<lparr> drift_claim = ''claim_3'', drift_score = 0.6, cd_is_stable = False \<rparr> \<and>
      \<not> cd_is_stable \<lparr> drift_claim = ''claim_3'', drift_score = 0.6, cd_is_stable = False \<rparr>"
    using found by simp
  have "adjusted_confidence
     (adjust_result no_similarity plain_fmt default_drift (Some example_report)
        (mk_result ''claim_3'' CONTRADICTED 0.8)) =
     confidence (mk_result ''claim_3'' CONTRADICTED 0.8) *
       (1 - calculate_penalty default_drift
          (drift_score \<lparr> drift_claim = ''claim_3'', drift_score = 0.6, cd_is_stable = False \<rparr>))"
    using drift_penalty_formula [where L = default_drift and sim = no_similarity
        and r = "mk_result ''claim_3'' CONTRADICTED 0.8" and report = "Some example_report"
        and cd = "\<lparr> drift_claim = ''claim_3'', drift_score = 0.6, cd_is_stable = False \<rparr>"
        and fmt2f = plain_fmt] h4
    by blast
  then have adj: "adjusted_confidence
     (adjust_result no_similarity plain_fmt default_drift (Some example_report)
        (mk_result ''claim_3'' CONTRADICTED 0.8)) = 0.8 * (1 - 0.2)"
    using mid by (simp add: mk_result_def)
  from low mid incr adj show ?thesis by blast
qed

text \<open>
  Claim C10. \<^verbatim>\<open>adjust_verification_results\<close> returns one adjusted result per verification
  result, in the same order, each wrapping its verification result unchanged; and for a layer
  whose penalty factor is not negative and results whose confidence is not negative, every
  adjusted confidence lies between half the original confidence and the original confidence.
\<close>

theorem adjust_results_frame:
  assumes "0 \<le> confidence_penalty L" and "\<forall>r \<in> set rs. 0 \<le> confidence r"
  shows "length (adjust_verification_results sim fmt2f L rs dr) = length rs \<and>
         map original_result (adjust_verification_results sim fmt2f L rs dr) = rs \<and>
         (\<forall>i < length rs.
            confidence (rs ! i) * 0.5 \<le>
              adjusted_confidence (adjust_verification_results sim fmt2f L rs dr ! i) \<and>
            adjusted_confidence (adjust_verification_results sim fmt2f L rs dr ! i) \<le>
              confidence (rs ! i))"
proof -
  let ?report = "case dr of Some r \<Rightarrow> Some r | None \<Rightarrow> cached_drift_report L"
  let ?out = "adjust_verification_results sim fmt2f L rs dr"
  have out: "?out = map (adjust_result sim fmt2f L ?report) rs"
    by (rule adjust_verification_results_map)
  have len: "length ?out = length rs"
    by (simp add: out)
  have orig: "map original_result ?out = rs"
    by (simp add: out comp_def adjust_result_original)
  have bounds: "confidence (rs ! i) * 0.5 \<le> adjusted_confidence (?out ! i) \<and>
      adjusted_confidence (?out ! i) \<le> confidence (rs ! i)" if "i < length rs" for i
  proof -
    let ?r = "rs ! i"
    let ?p = "drift_penalty (adjust_result sim fmt2f L ?report ?r)"
    from that assms(2) have c: "0 \<le> confidence ?r"
      by simp
    have p: "0 \<le> ?p" "?p \<le> 0.5"
      using adjust_result_penalty_bounds [OF assms(1), of sim fmt2f ?report ?r] by simp_all
    have eq: "adjusted_confidence (?out ! i) = confidence ?r * (1 - ?p)"
      using that by (simp add: out adjust_result_confidence)
    from p have "0.5 \<le> 1 - ?p" and "1 - ?p \<le> 1"
      by simp_all
    with c have "confidence ?r * 0.5 \<le> confidence ?r * (1 - ?p)"
      and "confidence ?r * (1 - ?p) \<le> confidence ?r * 1"
      by (simp_all only: mult_left_mono)
    with eq show ?thesis by simp
  qed
  from len orig bounds show ?thesis by blast
qed

theorem adjust_results_frame_witness:
  "length (adjust_verification_results no_similarity plain_fmt default_drift five_results
             (Some example_report)) = 5 \<and>
   map original_result
     (adjust_verification_results no_similarity plain_fmt default_drift five_results
        (Some example_report)) = five_results \<and>
   confidence (five_results ! 3) * 0.5 \<le>
     adjusted_confidence
       (adjust_verification_results no_similarity plain_fmt default_drift five_results
          (Some example_report) ! 3) \<and>
   map adjusted_confidence
     (adjust_verification_results no_similarity plain_fmt default_drift five_results
        (Some example_report)) = [0.8, 0.8, 0.8, 0.64, 0.8]"
proof -
  have cp: "0 \<le> confidence_penalty default_drift"
    by (simp add: default_drift_def DriftMitigationLayer_init_def or_default_def
        DEFAULT_DRIFT_CONFIDENCE_PENALTY_def)
  have conf: "\<forall>r \<in> set five_results. 0 \<le> confidence r"
    by (simp add: five_results_def mk_result_def)
  have len: "length five_results = 5"
    by (simp add: five_results_def)
  have vals: "map adjusted_confidence
     (adjust_verification_results no_similarity plain_fmt default_drift five_results
        (Some example_report)) = [0.8, 0.8, 0.8, 0.64, 0.8]"
    by code_simp
  show ?thesis
    using adjust_results_frame [OF cp conf, of no_similarity plain_fmt "Some example_report"]
      len vals
    by simp
qed

subsection \<open>Verification\<close>

lemma combined_evidence_no_chunks:
  "evidence_chunks ev = [] \<Longrightarrow> get_combined_evidence ev n = []"
  by (simp add: get_combined_evidence_def)

lemma verify_claim_no_evidence:
  "get_combined_evidence ev 3 = [] \<Longrightarrow>
   verify_claim py L claim ev = ([], create_unverifiable_result claim ev ''No evidence found'')"
  by (simp add: verify_claim_def)

lemma verify_claim_fused:
  assumes "get_combined_evidence ev 3 \<noteq> []"
  shows "(category (snd (verify_claim py L claim ev)), confidence (snd (verify_claim py L claim ev))) =
     fuse_signals (nli_model L (c_text claim) (map content (take 3 (evidence_chunks ev))))
       (calculate_entity_score
          (check_entity_consistency py L claim (get_combined_evidence ev 3)))
       (check_numerical_consistency py claim (get_combined_evidence ev 3))
       (check_entity_consistency py L claim (get_combined_evidence ev 3))"
  using assms by (simp add: verify_claim_def Let_def split: prod.splits)

lemma verify_claim_calls:
  "get_combined_evidence ev 3 \<noteq> [] \<Longrightarrow>
   fst (verify_claim py L claim ev) =
     [(c_text claim, map content (take 3 (evidence_chunks ev)))]"
  by (simp add: verify_claim_def Let_def split: prod.splits)

text \<open>
  Claim C3. When the combined evidence text is empty (in particular when there is no
  evidence chunk), \<^verbatim>\<open>verify_claim\<close> makes no call to the classifier and returns category
  unverifiable, confidence 0.5 and the explanation \<^verbatim>\<open>No evidence found\<close>.
\<close>

theorem no_evidence_unverifiable:
  assumes "evidence_chunks ev = [] \<or> get_combined_evidence ev 3 = []"
  shows "fst (verify_claim py L claim ev) = [] \<and>
         category (snd (verify_claim py L claim ev)) = UNVERIFIABLE \<and>
         confidence (snd (verify_claim py L claim ev)) = 0.5 \<and>
         explanation (snd (verify_claim py L claim ev)) = ''No evidence found''"
proof -
  from assms have "get_combined_evidence ev 3 = []"
    using combined_evidence_no_chunks by blast
  then show ?thesis
    by (simp add: verify_claim_no_evidence create_unverifiable_result_def)
qed

theorem no_evidence_unverifiable_witness:
  "evidence_chunks no_evidence = [] \<and>
   verify_claim example_py (VerificationLayer_init (constant_nli 0.9 0.05 0.05) GENERAL None)
       tower_claim no_evidence =
     ([], create_unverifiable_result tower_claim no_evidence ''No evidence found'') \<and>
   confidence (snd (verify_claim example_py
       (VerificationLayer_init (constant_nli 0.9 0.05 0.05) GENERAL None)
       tower_claim no_evidence)) = 0.5"
proof -
  have e: "evidence_chunks no_evidence = []"
    by (simp add: no_evidence_def mk_evidence_def)
  have v: "verify_claim example_py (VerificationLayer_init (constant_nli 0.9 0.05 0.05) GENERAL None)
       tower_claim no_evidence =
     ([], create_unverifiable_result tower_claim no_evidence ''No evidence found'')"
    by (simp add: verify_claim_def get_combined_evidence_def e)
  have "evidence_chunks no_evidence = [] \<or> get_combined_evidence no_evidence 3 = []"
    using e by simp
  from no_evidence_unverifiable [OF this, of example_py
      "VerificationLayer_init (constant_nli 0.9 0.05 0.05) GENERAL None" tower_claim] e v
  show ?thesis by simp
qed

text \<open>
  Claim C2, as the code has it. With non-empty evidence and a numeric consistency score
  below 0.5 the category is always contradicted; the confidence is the contradiction score
  of the classifier when that exceeds 0.7, else \<open>max contradiction (1 - entity score)\<close>
  when an entity contradiction exists and the entity score is below 0.7, else the fixed 0.7.
\<close>

theorem numeric_mismatch_contradicted:
  assumes "get_combined_evidence ev 3 \<noteq> []"
    and "check_numerical_consistency py claim (get_combined_evidence ev 3) < 0.5"
  shows "category (snd (verify_claim py L claim ev)) = CONTRADICTED \<and>
         confidence (snd (verify_claim py L claim ev)) =
           (let nli = nli_model L (c_text claim) (map content (take 3 (evidence_chunks ev)));
                matches = check_entity_consistency py L claim (get_combined_evidence ev 3)
            in if contradiction_score nli > 0.7 then contradiction_score nli
               else if list_ex is_contradiction matches \<and> calculate_entity_score matches < 0.7
               then max (contradiction_score nli) (1 - calculate_entity_score matches)
               else 0.7)"
proof -
  let ?r = "snd (verify_claim py L claim ev)"
  let ?nli = "nli_model L (c_text claim) (map content (take 3 (evidence_chunks ev)))"
  let ?ms = "check_entity_consistency py L claim (get_combined_evidence ev 3)"
  let ?num = "check_numerical_consistency py claim (get_combined_evidence ev 3)"
  have f: "(category ?r, confidence ?r) = fuse_signals ?nli (calculate_entity_score ?ms) ?num ?ms"
    by (rule verify_claim_fused [OF assms(1)])
  from assms(2) have n: "\<not> ?num > 0.8" "?num < 0.5"
    by simp_all
  have "fuse_signals ?nli (calculate_entity_score ?ms) ?num ?ms =
      (CONTRADICTED,
       if contradiction_score ?nli > 0.7 then contradiction_score ?nli
       else if list_ex is_contradiction ?ms \<and> calculate_entity_score ?ms < 0.7
       then max (contradiction_score ?nli) (1 - calculate_entity_score ?ms)
       else 0.7)"
    using n by (simp add: fuse_signals_def Let_def)
  with f show ?thesis
    by (simp add: Let_def)
qed

theorem numeric_mismatch_contradicted_witness:
  "get_combined_evidence tower_evidence 3 = ''The tower is 330 metres tall'' \<and>
   check_numerical_consistency example_py tower_claim (get_combined_evidence tower_evidence 3) = 0 \<and>
   category (snd (verify_claim example_py neutral_layer tower_claim tower_evidence)) = CONTRADICTED \<and>
   confidence (snd (verify_claim example_py neutral_layer tower_claim tower_evidence)) = 0.7"
proof -
  have t: "get_combined_evidence tower_evidence 3 = ''The tower is 330 metres tall''"
    by code_simp
  have n: "check_numerical_consistency example_py tower_claim
      (get_combined_evidence tower_evidence 3) = 0"
    by code_simp
  have h1: "get_combined_evidence tower_evidence 3 \<noteq> []"
    by (simp add: t)
  have h2: "check_numerical_consistency example_py tower_claim
      (get_combined_evidence tower_evidence 3) < 0.5"
    by (simp add: n)
  have c: "contradiction_score (nli_model neutral_layer (c_text tower_claim)
      (map content (take 3 (evidence_chunks tower_evidence)))) = 0.2"
    by (simp add: neutral_layer_def VerificationLayer_init_def constant_nli_def)
  have m: "check_entity_consistency example_py neutral_layer tower_claim
      (get_combined_evidence tower_evidence 3) = []"
    by (simp add: check_entity_consistency_def tower_claim_def mk_claim_def)
  from numeric_mismatch_contradicted [OF h1 h2, of neutral_layer] t n c m
  show ?thesis by (simp add: Let_def)
qed

text \<open>
  Claim C2 as stated fails: on the same claim and evidence, with numeric consistency
  score 0, a classifier that reports contradiction 0.9 gives confidence 0.9, while one that
  reports contradiction 0.2 gives 0.7. The confidence is not fixed at 0.7 and depends on
  the output of the classifier.
\<close>

theorem numeric_mismatch_confidence_counterexample:
  "get_combined_evidence tower_evidence 3 \<noteq> [] \<and>
   check_numerical_consistency example_py tower_claim (get_combined_evidence tower_evidence 3) = 0 \<and>
   category (snd (verify_claim example_py contradicting_layer tower_claim tower_evidence)) =
     CONTRADICTED \<and>
   confidence (snd (verify_claim example_py contradicting_layer tower_claim tower_evidence)) = 0.9 \<and>
   confidence (snd (verify_claim example_py contradicting_layer tower_claim tower_evidence)) \<noteq> 0.7 \<and>
   confidence (snd (verify_claim example_py neutral_layer tower_claim tower_evidence)) = 0.7"
  by code_simp

subsection \<open>Batch verification\<close>

lemma batch_loop_map:
  "batch_loop py L ps (calls, results) =
     (calls @ concat (map (\<lambda>(c, e). fst (verify_claim py L c e)) ps),
      results @ map (\<lambda>(c, e). snd (verify_claim py L c e)) ps)"
proof (induction ps arbitrary: calls results)
  case Nil
  show ?case by simp
next
  case (Cons p ps)
  obtain c e where p: "p = (c, e)"
    by (cases p)
  show ?case
    by (simp add: p Cons.IH split: prod.splits)
qed

text \<open>
  Claim C9. \<^verbatim>\<open>verify_claims_batch\<close> raises \<^verbatim>\<open>ValueError\<close>, returning no results, whenever
  the two lists differ in length; for lists of equal length it returns one result per claim,
  the result at each position being that of \<^verbatim>\<open>verify_claim\<close> on the claim and the evidence
  at that position.
\<close>

theorem verify_claims_batch_spec:
  "(length claims \<noteq> length evidences \<longrightarrow>
      verify_claims_batch py L claims evidences =
        Inl (ValueError ''Claims and evidences must have same length'')) \<and>
   (length claims = length evidences \<longrightarrow>
      (\<exists>calls results.
         verify_claims_batch py L claims evidences = Inr (calls, results) \<and>
         length results = length claims \<and>
         (\<forall>i < length claims.
            results ! i = snd (verify_claim py L (claims ! i) (evidences ! i)))))"
proof (intro conjI impI)
  assume "length claims \<noteq> length evidences"
  then show "verify_claims_batch py L claims evidences =
      Inl (ValueError ''Claims and evidences must have same length'')"
    by (simp add: verify_claims_batch_def)
next
  assume eq: "length claims = length evidences"
  let ?calls = "concat (map (\<lambda>(c, e). fst (verify_claim py L c e)) (zip claims evidences))"
  let ?results = "map (\<lambda>(c, e). snd (verify_claim py L c e)) (zip claims evidences)"
  have r: "verify_claims_batch py L claims evidences = Inr (?calls, ?results)"
    using eq by (simp add: verify_claims_batch_def batch_loop_map)
  have l: "length ?results = length claims"
    using eq by simp
  have n: "\<forall>i < length claims. ?results ! i = snd (verify_claim py L (claims ! i) (evidences ! i))"
    using eq by simp
  from r l n show "\<exists>calls results.
      verify_claims_batch py L claims evidences = Inr (calls, results) \<and>
      length results = length claims \<and>
      (\<forall>i < length claims. results ! i = snd (verify_claim py L (claims ! i) (evidences ! i)))"
    by blast
qed

theorem verify_claims_batch_spec_witness:
  "verify_claims_batch example_py neutral_layer [tower_claim, tower_claim] [tower_evidence] =
     Inl (ValueError ''Claims and evidences must have same length'') \<and>
   (\<exists>calls results.
      verify_claims_batch example_py neutral_layer [tower_claim, tower_claim]
        [tower_evidence, no_evidence] = Inr (calls, results) \<and>
      length results = 2 \<and>
      results ! 0 = snd (verify_claim example_py neutral_layer tower_claim tower_evidence) \<and>
      results ! 1 = snd (verify_claim example_py neutral_layer tower_claim no_evidence))"
proof -
  have a: "length [tower_claim, tower_claim] \<noteq> length [tower_evidence]"
    by simp
  have b: "length [tower_claim, tower_claim] = length [tower_evidence, no_evidence]"
    by simp
  have first: "verify_claims_batch example_py neutral_layer [tower_claim, tower_claim] [tower_evidence] =
     Inl (ValueError ''Claims and evidences must have same length'')"
    using verify_claims_batch_spec [of "[tower_claim, tower_claim]" "[tower_evidence]"
        example_py neutral_layer] a by blast
  from verify_claims_batch_spec [of "[tower_claim, tower_claim]" "[tower_evidence, no_evidence]"
      example_py neutral_layer] b
  obtain calls results where
    r: "verify_claims_batch example_py neutral_layer [tower_claim, tower_claim]
          [tower_evidence, no_evidence] = Inr (calls, results)"
    and l: "length results = length [tower_claim, tower_claim]"
    and n: "\<forall>i < length [tower_claim, tower_claim].
          results ! i = snd (verify_claim example_py neutral_layer
            ([tower_claim, tower_claim] ! i) ([tower_evidence, no_evidence] ! i))"
    by blast
  from n have "results ! 0 = snd (verify_claim example_py neutral_layer tower_claim tower_evidence)"
    and "results ! 1 = snd (verify_claim example_py neutral_layer tower_claim no_evidence)"
    by (simp_all add: nth_Cons')
  with first r l show ?thesis
    by simp
qed

subsection \<open>Range of the fused confidence\<close>

lemma fold_best_range:
  assumes "\<forall>a b. 0 \<le> ratio a b \<and> ratio a b \<le> (1::real)"
    and "0 \<le> snd acc \<and> snd acc \<le> 1"
  shows "0 \<le> snd (fold (\<lambda>candidate (best_match, best_score).
             (let sc = ratio e (lower candidate)
              in if sc > best_score then (candidate, sc) else (best_match, best_score)))
          cs acc) \<and>
         snd (fold (\<lambda>candidate (best_match, best_score).
             (let sc = ratio e (lower candidate)
              in if sc > best_score then (candidate, sc) else (best_match, best_score)))
          cs acc) \<le> 1"
  using assms(2)
proof (induction cs arbitrary: acc)
  case Nil
  then show ?case by simp
next
  case (Cons c cs)
  let ?step = "\<lambda>candidate (best_match, best_score).
             (let sc = ratio e (lower candidate)
              in if sc > best_score then (candidate, sc) else (best_match, best_score))"
  have "0 \<le> snd (?step c acc) \<and> snd (?step c acc) \<le> 1"
    using Cons.prems assms(1) by (cases acc) (auto simp: Let_def)
  from Cons.IH [OF this] show ?case
    by simp
qed

lemma find_similar_entity_range:
  assumes "\<forall>a b. 0 \<le> seq_ratio py a b \<and> seq_ratio py a b \<le> 1"
  shows "0 \<le> snd (find_similar_entity py e t) \<and> snd (find_similar_entity py e t) \<le> 1"
  using fold_best_range [where ratio = "seq_ratio py" and acc = "([], 0)"
      and e = "lower e" and cs = "ngram_candidates (split t)"] assms
  by (simp add: find_similar_entity_def)

lemma check_entity_range:
  assumes "\<forall>a b. 0 \<le> seq_ratio py a b \<and> seq_ratio py a b \<le> 1"
  shows "0 \<le> similarity (check_entity py L ev e) \<and> similarity (check_entity py L ev e) \<le> 1 \<and>
         claim_entity (check_entity py L ev e) = e"
  using find_similar_entity_range [OF assms, of "entity_text e" ev]
  by (auto simp: check_entity_def split: prod.splits)

lemma sum_list_filter_le:
  assumes "\<forall>x \<in> set xs. 0 \<le> f x \<and> f x \<le> (g x :: real)"
  shows "0 \<le> sum_list (map f (filter P xs)) \<and>
         sum_list (map f (filter P xs)) \<le> sum_list (map g xs)"
  using assms
proof (induction xs)
  case Nil
  show ?case by simp
next
  case (Cons x xs)
  then have ih: "0 \<le> sum_list (map f (filter P xs)) \<and>
      sum_list (map f (filter P xs)) \<le> sum_list (map g xs)"
    and x: "0 \<le> f x" "f x \<le> (g x :: real)"
    by simp_all
  from x have "0 \<le> g x"
    by simp
  with ih x show ?case
    by auto
qed

lemma calculate_entity_score_range:
  assumes "\<forall>m \<in> set ms. 0 \<le> similarity m \<and> similarity m \<le> 1 \<and>
             0 \<le> severity_weight (claim_entity m)"
  shows "0 \<le> calculate_entity_score ms \<and> calculate_entity_score ms \<le> 1"
proof -
  let ?f = "\<lambda>m. similarity m * severity_weight (claim_entity m)"
  let ?g = "\<lambda>m. severity_weight (claim_entity m)"
  have "\<forall>m \<in> set ms. 0 \<le> ?f m \<and> ?f m \<le> ?g m"
    using assms by (auto simp: mult_left_le_one_le)
  from sum_list_filter_le [OF this, of is_match]
  have b: "0 \<le> sum_list (map ?f (filter is_match ms))"
    "sum_list (map ?f (filter is_match ms)) \<le> sum_list (map ?g ms)"
    by simp_all
  show ?thesis
  proof (cases "ms = [] \<or> \<not> sum_list (map ?g ms) > 0")
    case True
    then show ?thesis
      by (auto simp: calculate_entity_score_def Let_def)
  next
    case False
    then have pos: "sum_list (map ?g ms) > 0" and ne: "ms \<noteq> []"
      by simp_all
    have "calculate_entity_score ms =
        sum_list (map ?f (filter is_match ms)) / sum_list (map ?g ms)"
      using pos ne by (simp add: calculate_entity_score_def Let_def)
    with b pos show ?thesis
      by simp
  qed
qed

lemma check_entity_consistency_range:
  assumes "\<forall>a b. 0 \<le> seq_ratio py a b \<and> seq_ratio py a b \<le> 1"
    and "\<forall>e \<in> set (entities claim). 0 \<le> severity_weight e"
  shows "0 \<le> calculate_entity_score (check_entity_consistency py L claim ev) \<and>
         calculate_entity_score (check_entity_consistency py L claim ev) \<le> 1"
proof (rule calculate_entity_score_range)
  show "\<forall>m \<in> set (check_entity_consistency py L claim ev).
      0 \<le> similarity m \<and> similarity m \<le> 1 \<and> 0 \<le> severity_weight (claim_entity m)"
    using check_entity_range [OF assms(1)] assms(2)
    by (auto simp: check_entity_consistency_def)
qed

lemma fuse_signals_range:
  assumes "0 \<le> entailment_score nli \<and> entailment_score nli \<le> 1"
    and "0 \<le> contradiction_score nli \<and> contradiction_score nli \<le> 1"
    and "0 \<le> neutral_score nli \<and> neutral_score nli \<le> 1"
    and "0 \<le> es \<and> es \<le> 1"
  shows "0 \<le> snd (fuse_signals nli es num ms) \<and> snd (fuse_signals nli es num ms) \<le> 1"
proof -
  have "entailment_score nli * es \<le> 1" and "0 \<le> entailment_score nli * es"
    using assms(1,4) by (simp_all add: mult_le_one)
  then show ?thesis
    using assms by (auto simp: fuse_signals_def Let_def min_def max_def)
qed

text \<open>
  Claim C8. Every result of \<^verbatim>\<open>verify_claim\<close> has one of the three categories, and its
  confidence lies in [0, 1] when the three scores of the classifier lie in [0, 1]. The
  similarity ratio of the library lies in [0, 1] and the severity weights of the entities of
  the claim are not negative.
\<close>

theorem verification_result_invariant:
  assumes nli: "\<forall>t es. 0 \<le> entailment_score (nli_model L t es) \<and> entailment_score (nli_model L t es) \<le> 1 \<and>
                  0 \<le> contradiction_score (nli_model L t es) \<and> contradiction_score (nli_model L t es) \<le> 1 \<and>
                  0 \<le> neutral_score (nli_model L t es) \<and> neutral_score (nli_model L t es) \<le> 1"
    and ratio: "\<forall>a b. 0 \<le> seq_ratio py a b \<and> seq_ratio py a b \<le> 1"
    and weights: "\<forall>e \<in> set (entities claim). 0 \<le> severity_weight e"
  shows "category (snd (verify_claim py L claim ev)) \<in> {SUPPORTED, CONTRADICTED, UNVERIFIABLE} \<and>
         0 \<le> confidence (snd (verify_claim py L claim ev)) \<and>
         confidence (snd (verify_claim py L claim ev)) \<le> 1"
proof -
  let ?r = "snd (verify_claim py L claim ev)"
  have cat: "category ?r \<in> {SUPPORTED, CONTRADICTED, UNVERIFIABLE}"
    by (cases "category ?r") simp_all
  have conf: "0 \<le> confidence ?r \<and> confidence ?r \<le> 1"
  proof (cases "get_combined_evidence ev 3 = []")
    case True
    then show ?thesis
      by (simp add: verify_claim_no_evidence create_unverifiable_result_def)
  next
    case False
    let ?nli = "nli_model L (c_text claim) (map content (take 3 (evidence_chunks ev)))"
    let ?ms = "check_entity_consistency py L claim (get_combined_evidence ev 3)"
    let ?num = "check_numerical_consistency py claim (get_combined_evidence ev 3)"
    have "confidence ?r = snd (fuse_signals ?nli (calculate_entity_score ?ms) ?num ?ms)"
      using verify_claim_fused [OF False, of py L claim] by (metis snd_conv)
    moreover have "0 \<le> snd (fuse_signals ?nli (calculate_entity_score ?ms) ?num ?ms) \<and>
        snd (fuse_signals ?nli (calculate_entity_score ?ms) ?num ?ms) \<le> 1"
      using nli check_entity_consistency_range [OF ratio weights]
      by (intro fuse_signals_range) simp_all
    ultimately show ?thesis by simp
  qed
  from cat conf show ?thesis by simp
qed

theorem verification_result_invariant_witness:
  "category (snd (verify_claim example_py supporting_layer paris_claim paris_evidence)) = SUPPORTED \<and>
   confidence (snd (verify_claim example_py supporting_layer paris_claim paris_evidence)) = 0.9 \<and>
   0 \<le> confidence (snd (verify_claim example_py supporting_layer paris_claim paris_evidence)) \<and>
   confidence (snd (verify_claim example_py supporting_layer paris_claim paris_evidence)) \<le> 1"
proof -
  have nli: "\<forall>t es.
      0 \<le> entailment_score (nli_model supporting_layer t es) \<and>
      entailment_score (nli_model supporting_layer t es) \<le> 1 \<and>
      0 \<le> contradiction_score (nli_model supporting_layer t es) \<and>
      contradiction_score (nli_model supporting_layer t es) \<le> 1 \<and>
      0 \<le> neutral_score (nli_model supporting_layer t es) \<and>
      neutral_score (nli_model supporting_layer t es) \<le> 1"
    by (simp add: supporting_layer_def VerificationLayer_init_def constant_nli_def)
  have ratio: "\<forall>a b. 0 \<le> seq_ratio example_py a b \<and> seq_ratio example_py a b \<le> 1"
    by (simp add: example_py_def exact_ratio_def)
  have weights: "\<forall>e \<in> set (entities paris_claim). 0 \<le> severity_weight e"
    by (simp add: paris_claim_def mk_claim_def)
  have cat: "category (snd (verify_claim example_py supporting_layer paris_claim paris_evidence)) =
      SUPPORTED"
    by code_simp
  have conf: "confidence (snd (verify_claim example_py supporting_layer paris_claim paris_evidence)) =
      0.9"
    by code_simp
  from verification_result_invariant [OF nli ratio weights, of paris_evidence] cat conf
  show ?thesis by simp
qed

subsection \<open>Retrieval: threshold, fallback and the empty index\<close>

lemma ranked_sort_desc: "ranked (sort_desc rs)"
proof -
  have "sorted (map (\<lambda>x. - snd x) (sort_key (\<lambda>x. - snd x) rs))"
    by (rule sorted_sort_key)
  then show ?thesis
    by (simp add: ranked_def sort_desc_def sorted_map)
qed

lemma ranked_take: "ranked rs \<Longrightarrow> ranked (take k rs)"
  by (simp add: ranked_def sorted_wrt_take)

lemma ranked_hybrid_search:
  "hybrid_search L lib doc_index query k0 = Inr (rs, L') \<Longrightarrow> ranked rs"
  by (auto simp: hybrid_search_def Let_def ranked_take ranked_sort_desc
      split: sum.splits if_splits prod.splits)

lemma collect_results_scores:
  "collect_results cs scs is = Inr rs \<Longrightarrow>
   map snd rs = map (\<lambda>i. scs ! i) (filter (\<lambda>i. scs ! i > 0) is)"
  by (induction "is" arbitrary: rs) (auto split: if_splits sum.splits)

lemma ranked_keyword_search:
  assumes "\<forall>scs. sorted (map (\<lambda>i. scs ! i) (argsort lib scs))"
    and "keyword_search L lib query cs k0 = Inr (rs, L')"
  shows "ranked rs"
proof (cases "rs = []")
  case True
  then show ?thesis by (simp add: ranked_def)
next
  case False
  with assms(2) obtain held k scs where
    c: "collect_results held scs (take k (rev (argsort lib scs))) = Inr rs"
    by (fastforce simp: keyword_search_def Let_def split: sum.splits if_splits option.splits)
  have "sorted (map (\<lambda>i. scs ! i) (argsort lib scs))"
    using assms(1) by blast
  then have "sorted_wrt (\<lambda>a b. a \<ge> b) (map (\<lambda>i. scs ! i) (rev (argsort lib scs)))"
    by (simp add: rev_map [symmetric] sorted_wrt_rev)
  then have "sorted_wrt (\<lambda>i j. scs ! i \<ge> scs ! j) (rev (argsort lib scs))"
    by (simp add: sorted_wrt_map)
  then have "sorted_wrt (\<lambda>i j. scs ! i \<ge> scs ! j)
      (filter (\<lambda>i. scs ! i > 0) (take k (rev (argsort lib scs))))"
    by (simp add: sorted_wrt_take sorted_wrt_filter)
  then have "sorted_wrt (\<lambda>a b. a \<ge> b) (map snd rs)"
    by (simp add: collect_results_scores [OF c] sorted_wrt_map)
  then show ?thesis
    by (simp add: ranked_def sorted_wrt_map)
qed

lemma ranked_search_results:
  assumes "\<forall>scs. sorted (map (\<lambda>i. scs ! i) (argsort lib scs))"
    and "method = ''vector'' \<longrightarrow> ranked (vector_search L doc_index (c_text claim) None)"
    and "search_results L lib doc_index claim method = Inr (rs, L')"
  shows "ranked rs"
proof -
  consider "method = ''vector''" | "method \<noteq> ''vector''" "method = ''keyword''"
    | "method \<noteq> ''vector''" "method \<noteq> ''keyword''"
    by blast
  then show ?thesis
  proof cases
    case 1
    with assms(2,3) show ?thesis
      by (auto simp: search_results_def)
  next
    case 2
    with assms(3) obtain L1 where "keyword_search L1 lib (c_text claim) None None = Inr (rs, L')"
      by (auto simp: search_results_def split: sum.splits if_splits)
    then show ?thesis
      by (rule ranked_keyword_search [OF assms(1)])
  next
    case 3
    with assms(3) have "hybrid_search L lib doc_index (c_text claim) None = Inr (rs, L')"
      by (simp add: search_results_def)
    then show ?thesis
      by (rule ranked_hybrid_search)
  qed
qed

lemma ranked_hd_max:
  assumes "ranked rs" and "r \<in> set rs"
  shows "snd r \<le> snd (hd rs)"
proof (cases rs)
  case Nil
  with assms(2) show ?thesis by simp
next
  case (Cons x xs)
  with assms show ?thesis
    by (auto simp: ranked_def)
qed

lemma threshold_results_cases:
  "(\<exists>r \<in> set rs. snd r \<ge> similarity_threshold L) \<Longrightarrow>
     threshold_results L rs = filter (\<lambda>r. snd r \<ge> similarity_threshold L) rs"
  "rs \<noteq> [] \<Longrightarrow> \<forall>r \<in> set rs. snd r < similarity_threshold L \<Longrightarrow>
     threshold_results L rs = [hd rs]"
  "threshold_results L [] = []"
proof -
  have a: "(\<lambda>(chunk, s). s \<ge> similarity_threshold L) = (\<lambda>r. snd r \<ge> similarity_threshold L)"
    by (simp add: case_prod_unfold)
  show "threshold_results L rs = filter (\<lambda>r. snd r \<ge> similarity_threshold L) rs"
    if "\<exists>r \<in> set rs. snd r \<ge> similarity_threshold L"
  proof -
    from that have "filter (\<lambda>r. snd r \<ge> similarity_threshold L) rs \<noteq> []"
      by (simp add: filter_empty_conv)
    then show ?thesis
      by (simp add: threshold_results_def a)
  qed
  show "threshold_results L rs = [hd rs]"
    if "rs \<noteq> []" and "\<forall>r \<in> set rs. snd r < similarity_threshold L"
  proof -
    from that(2) have "filter (\<lambda>r. snd r \<ge> similarity_threshold L) rs = []"
      by (auto simp: filter_empty_conv)
    with that(1) show ?thesis
      by (cases rs) (simp_all add: threshold_results_def a)
  qed
  show "threshold_results L [] = []"
    by (simp add: threshold_results_def)
qed

text \<open>
  When the search returns, \<^verbatim>\<open>retrieve_evidence\<close> returns the results that reach the
  threshold, or else the first result alone, and nothing for no results.
\<close>

lemma retrieve_evidence_returns:
  assumes "search_results L lib doc_index claim method = Inr (rs, L')"
  shows "\<exists>ev. retrieve_evidence L lib doc_index claim method = Inr (ev, L') \<and>
           zip (evidence_chunks ev) (scores ev) = threshold_results L' rs \<and>
           (rs = [] \<longrightarrow> evidence_chunks ev = [] \<and> scores ev = [] \<and> ev_citation ev = None)"
  using assms
  by (auto simp: retrieve_evidence_def Let_def zip_map_fst_snd threshold_results_cases(3))

lemma build_bm25_index_settings:
  "build_bm25_index L cs = Inr L1 \<Longrightarrow> similarity_threshold L1 = similarity_threshold L"
  by (auto simp: build_bm25_index_def split: sum.splits)

lemma keyword_search_settings:
  "keyword_search L lib query cs k0 = Inr (rs, L') \<Longrightarrow>
   similarity_threshold L' = similarity_threshold L"
  by (auto simp: keyword_search_def Let_def build_bm25_index_settings
      split: sum.splits if_splits option.splits)

lemma search_results_settings:
  assumes "search_results L lib doc_index claim method = Inr (rs, L')"
  shows "similarity_threshold L' = similarity_threshold L"
proof -
  have k: "similarity_threshold L2 = similarity_threshold L"
    if "(if bm25_index L = None then build_bm25_index L (chunks doc_index) else Inr L) = Inr L1"
      and "keyword_search L1 lib query None k0 = Inr (xs, L2)"
    for L1 L2 query k0 xs
  proof -
    from that(1) have "similarity_threshold L1 = similarity_threshold L"
      by (auto simp: build_bm25_index_settings split: if_splits)
    with keyword_search_settings [OF that(2)] show ?thesis
      by simp
  qed
  consider "method = ''vector''" | "method \<noteq> ''vector''" "method = ''keyword''"
    | "method \<noteq> ''vector''" "method \<noteq> ''keyword''"
    by blast
  then show ?thesis
  proof cases
    case 1
    with assms show ?thesis
      by (auto simp: search_results_def)
  next
    case 2
    with assms obtain L1 where
      "(if bm25_index L = None then build_bm25_index L (chunks doc_index) else Inr L) = Inr L1"
      and "keyword_search L1 lib (c_text claim) None None = Inr (rs, L')"
      by (auto simp: search_results_def split: sum.splits)
    then show ?thesis
      by (rule k)
  next
    case 3
    with assms obtain L1 xs k0 where
      "(if bm25_index L = None then build_bm25_index L (chunks doc_index) else Inr L) = Inr L1"
      and "keyword_search L1 lib (c_text claim) None k0 = Inr (xs, L')"
      by (auto simp: search_results_def hybrid_search_def Let_def split: sum.splits prod.splits)
    then show ?thesis
      by (rule k)
  qed
qed

text \<open>
  When the search returns results of which none reaches the threshold, the evidence is the
  first result alone, and it has the highest score of all results. The hybrid results are
  sorted by the layer and the keyword results by \<^verbatim>\<open>argsort\<close>, which returns positions in
  ascending order of score; the vector results are ranked by the index.
\<close>

lemma retrieve_evidence_fallback:
  assumes "\<forall>scs. sorted (map (\<lambda>i. scs ! i) (argsort lib scs))"
    and "method = ''vector'' \<longrightarrow> ranked (vector_search L doc_index (c_text claim) None)"
    and "search_results L lib doc_index claim method = Inr (rs, L')"
    and "rs \<noteq> []" and "\<forall>r \<in> set rs. snd r < similarity_threshold L"
  shows "\<exists>ev. retrieve_evidence L lib doc_index claim method = Inr (ev, L') \<and>
           evidence_chunks ev = [fst (hd rs)] \<and> scores ev = [snd (hd rs)] \<and>
           (\<forall>r \<in> set rs. snd r \<le> snd (hd rs))"
proof -
  have t: "similarity_threshold L' = similarity_threshold L"
    by (rule search_results_settings [OF assms(3)])
  have f: "threshold_results L' rs = [hd rs]"
    using assms(4,5) by (simp add: threshold_results_cases(2) t)
  have m: "\<forall>r \<in> set rs. snd r \<le> snd (hd rs)"
    using ranked_hd_max [OF ranked_search_results [OF assms(1,2,3)]] by blast
  from assms(3) f m show ?thesis
    by (simp add: retrieve_evidence_def Let_def)
qed

lemma build_bm25_index_empty: "build_bm25_index L [] = Inl ZeroDivisionError"
  by (simp add: build_bm25_index_def BM25Okapi_def)

text \<open>
  On a layer that has no keyword index yet, a document index without chunks makes the
  keyword and the hybrid retrieval raise.
\<close>

lemma empty_index_raises:
  assumes "chunks doc_index = []" and "bm25_index L = None" and "method \<noteq> ''vector''"
  shows "retrieve_evidence L lib doc_index claim method = Inl ZeroDivisionError"
  using assms
  by (simp add: retrieve_evidence_def search_results_def hybrid_search_def Let_def
      build_bm25_index_empty)

text \<open>
  Claim C7 at a concrete input: the document index that ingestion builds for no documents
  (no chunks, a vector search that finds nothing) and a layer with the default settings and
  no keyword index yet. With the vector method the evidence has no chunks and no citation.
  With the hybrid method, which is the default, and with the keyword method the call does
  not return an empty evidence result: building the keyword index over no chunks raises
  \<^verbatim>\<open>ZeroDivisionError\<close>.
\<close>

theorem retrieve_evidence_empty_index_raises:
  "chunks empty_index = [] \<and>
   bm25_index default_retrieval = None \<and>
   retrieve_evidence default_retrieval example_lib empty_index paris_claim ''hybrid'' =
     Inl ZeroDivisionError \<and>
   retrieve_evidence default_retrieval example_lib empty_index paris_claim ''keyword'' =
     Inl ZeroDivisionError \<and>
   (case retrieve_evidence default_retrieval example_lib empty_index paris_claim ''vector'' of
      Inl e \<Rightarrow> False
    | Inr (ev, L') \<Rightarrow> evidence_chunks ev = [] \<and> scores ev = [] \<and> ev_citation ev = None)"
proof -
  have c: "chunks empty_index = []"
    by (simp add: empty_index_def)
  have b: "bm25_index default_retrieval = None"
    by (simp add: default_retrieval_def RetrievalLayer_init_def)
  have h: "retrieve_evidence default_retrieval example_lib empty_index paris_claim ''hybrid'' =
      Inl ZeroDivisionError"
    by (simp add: retrieve_evidence_def search_results_def hybrid_search_def Let_def
        build_bm25_index_def BM25Okapi_def b c)
  have k: "retrieve_evidence default_retrieval example_lib empty_index paris_claim ''keyword'' =
      Inl ZeroDivisionError"
    by (simp add: retrieve_evidence_def search_results_def Let_def
        build_bm25_index_def BM25Okapi_def b c)
  have v: "search_results default_retrieval example_lib empty_index paris_claim ''vector'' =
      Inr ([], default_retrieval)"
    by (simp add: search_results_def vector_search_def empty_index_def)
  have "case retrieve_evidence default_retrieval example_lib empty_index paris_claim ''vector'' of
      Inl e \<Rightarrow> False
    | Inr (ev, L') \<Rightarrow> evidence_chunks ev = [] \<and> scores ev = [] \<and> ev_citation ev = None"
    by (simp add: retrieve_evidence_def v threshold_results_def Let_def)
  with c b h k show ?thesis
    by simp
qed

subsection \<open>Retrieval: hybrid fusion\<close>

lemma map_of_dict_set: "map_of (dict_set k v d) = (map_of d)(k \<mapsto> v)"
  by (induction d) (auto simp: fun_eq_iff)

lemma set_dict_set: "set (dict_set k v d) \<subseteq> insert (k, v) (set d)"
  by (induction d) (auto split: if_splits)

lemma max_score_Max: "rs \<noteq> [] \<Longrightarrow> max_score rs = Max (set (map snd rs))"
proof -
  assume "rs \<noteq> []"
  then obtain r rs' where rs: "rs = r # rs'"
    by (cases rs) auto
  have "Max (set (snd r # map snd rs')) = fold max (map snd rs') (snd r)"
    by (rule Max.set_eq_fold)
  then show ?thesis
    by (simp add: rs max_score_def)
qed

lemma normalize_mono:
  assumes "0 \<le> s" and "s \<le> s'"
  shows "normalize_score (max s mo) s \<le> normalize_score (max s' mo) s'"
proof (cases "max s mo > 0")
  case False
  then have "normalize_score (max s mo) s = 0"
    by (simp add: normalize_score_def)
  moreover have "0 \<le> normalize_score (max s' mo) s'"
    using assms by (simp add: normalize_score_def)
  ultimately show ?thesis by simp
next
  case True
  show ?thesis
  proof (cases "mo \<le> s'")
    case le: True
    with True assms have "s' > 0" by (auto simp: max_def split: if_splits)
    with le have "normalize_score (max s' mo) s' = 1"
      by (simp add: normalize_score_def max_def)
    moreover have "normalize_score (max s mo) s \<le> 1"
      using True assms by (simp add: normalize_score_def)
    ultimately show ?thesis by simp
  next
    case False
    with assms have "max s mo = mo" "max s' mo = mo"
      by (simp_all add: max_def)
    with True assms show ?thesis
      by (simp add: normalize_score_def divide_right_mono)
  qed
qed

lemma fold_vector_other:
  assumes "cid \<notin> set (map (\<lambda>r. chunk_id (fst r)) xs)"
  shows "map_of (fold (\<lambda>(chunk, s) d. dict_set (chunk_id chunk) (chunk, normalize_score M s, 0::real) d) xs d) cid =
         map_of d cid"
  using assms
  by (induction xs arbitrary: d) (auto simp: map_of_dict_set)

lemma fold_vector_entry:
  assumes "distinct (map (\<lambda>r. chunk_id (fst r)) xs)" and "(c, s) \<in> set xs"
  shows "map_of (fold (\<lambda>(chunk, s) d. dict_set (chunk_id chunk) (chunk, normalize_score M s, 0::real) d) xs d)
           (chunk_id c) = Some (c, normalize_score M s, 0)"
  using assms
proof (induction xs arbitrary: d)
  case Nil
  then show ?case by simp
next
  case (Cons x xs)
  show ?case
  proof (cases "x = (c, s)")
    case True
    with Cons.prems have "chunk_id c \<notin> set (map (\<lambda>r. chunk_id (fst r)) xs)"
      by auto
    then show ?thesis
      using True by (simp add: fold_vector_other map_of_dict_set)
  next
    case False
    with Cons.prems have "(c, s) \<in> set xs" and "distinct (map (\<lambda>r. chunk_id (fst r)) xs)"
      by auto
    then show ?thesis
      by (simp add: Cons.IH)
  qed
qed

lemma process_vector_entry:
  assumes "distinct (map (\<lambda>r. chunk_id (fst r)) vr)" and "(c, s) \<in> set vr"
  shows "map_of (process_vector vr) (chunk_id c) = Some (c, normalize_score (max_score vr) s, 0)"
proof -
  from assms(2) have "vr \<noteq> []" by auto
  then show ?thesis
    using fold_vector_entry [OF assms] by (simp add: process_vector_def)
qed

text \<open>The keyword score that the keyword results leave on an entry of id \<open>cid\<close>.\<close>

lemma fold_keyword_entry:
  assumes "map_of d cid = Some (c, vs, k0)"
  shows "map_of (fold (\<lambda>(chunk, s) d.
                   (case map_of d (chunk_id chunk) of
                      Some (c, vs, ks) \<Rightarrow> dict_set (chunk_id chunk) (c, vs, normalize_score K s) d
                    | None \<Rightarrow> dict_set (chunk_id chunk) (chunk, 0, normalize_score K s) d)) kr d) cid =
         Some (c, vs, fold (\<lambda>(chunk, s) k. if chunk_id chunk = cid then normalize_score K s else k) kr k0)"
  using assms
proof (induction kr arbitrary: d k0)
  case Nil
  then show ?case by simp
next
  case (Cons x kr)
  obtain chunk s where x: "x = (chunk, s)"
    by (cases x)
  let ?d = "case map_of d (chunk_id chunk) of
              Some (c, vs, ks) \<Rightarrow> dict_set (chunk_id chunk) (c, vs, normalize_score K s) d
            | None \<Rightarrow> dict_set (chunk_id chunk) (chunk, 0, normalize_score K s) d"
  have "map_of ?d cid = Some (c, vs, if chunk_id chunk = cid then normalize_score K s else k0)"
    using Cons.prems by (auto simp: map_of_dict_set split: option.splits)
  from Cons.IH [OF this] show ?case
    by (simp add: x)
qed

lemma fold_vector_keyed:
  assumes "\<forall>(cid, chunk, vs, ks) \<in> set d. chunk_id chunk = cid"
  shows "\<forall>(cid, chunk, vs, ks) \<in>
           set (fold (\<lambda>(chunk, s) d. dict_set (chunk_id chunk) (chunk, normalize_score M s, 0::real) d) xs d).
           chunk_id chunk = cid"
  using assms
proof (induction xs arbitrary: d)
  case Nil
  then show ?case by simp
next
  case (Cons x xs)
  obtain chunk s where x: "x = (chunk, s)"
    by (cases x)
  have "\<forall>(cid, ch, vs, ks) \<in> set (dict_set (chunk_id chunk) (chunk, normalize_score M s, 0::real) d).
      chunk_id ch = cid"
    using Cons.prems set_dict_set [of "chunk_id chunk" "(chunk, normalize_score M s, 0::real)" d]
    by auto
  from Cons.IH [OF this] show ?case
    by (simp add: x)
qed

lemma fold_keyword_keyed:
  assumes "\<forall>(cid, chunk, vs, ks) \<in> set d. chunk_id chunk = cid"
  shows "\<forall>(cid, chunk, vs, ks) \<in>
           set (fold (\<lambda>(chunk, s) d.
                   (case map_of d (chunk_id chunk) of
                      Some (c, vs, ks) \<Rightarrow> dict_set (chunk_id chunk) (c, vs, normalize_score K s) d
                    | None \<Rightarrow> dict_set (chunk_id chunk) (chunk, 0::real, normalize_score K s) d)) kr d).
           chunk_id chunk = cid"
  using assms
proof (induction kr arbitrary: d)
  case Nil
  then show ?case by simp
next
  case (Cons x kr)
  obtain chunk s where x: "x = (chunk, s)"
    by (cases x)
  let ?d = "case map_of d (chunk_id chunk) of
              Some (c, vs, ks) \<Rightarrow> dict_set (chunk_id chunk) (c, vs, normalize_score K s) d
            | None \<Rightarrow> dict_set (chunk_id chunk) (chunk, 0::real, normalize_score K s) d"
  have "\<forall>(cid, ch, vs, ks) \<in> set ?d. chunk_id ch = cid"
  proof (cases "map_of d (chunk_id chunk)")
    case None
    then show ?thesis
      using Cons.prems set_dict_set [of "chunk_id chunk" "(chunk, 0::real, normalize_score K s)" d]
      by auto
  next
    case (Some e)
    obtain c vs ks where e: "e = (c, vs, ks)"
      by (cases e)
    from Some e have "(chunk_id chunk, c, vs, ks) \<in> set d"
      by (simp add: map_of_SomeD)
    with Cons.prems have "chunk_id c = chunk_id chunk"
      by auto
    then show ?thesis
      using Cons.prems Some e set_dict_set [of "chunk_id chunk" "(c, vs, normalize_score K s)" d]
      by auto
  qed
  from Cons.IH [OF this] show ?case
    by (simp add: x)
qed

lemma combined_keyed:
  "\<forall>(cid, chunk, vs, ks) \<in> set (process_keyword kr (process_vector vr)). chunk_id chunk = cid"
proof -
  have v: "\<forall>(cid, chunk, vs, ks) \<in> set (process_vector vr). chunk_id chunk = cid"
    using fold_vector_keyed [of "[]" "max_score vr" vr] by (simp add: process_vector_def)
  then show ?thesis
    using fold_keyword_keyed [OF v, of "max_score kr" kr] by (simp add: process_keyword_def)
qed

lemma map_of_scores:
  assumes "\<forall>(cid, chunk, vs, ks) \<in> set d. chunk_id chunk = cid"
  shows "map_of (map (\<lambda>(chunk, s). (chunk_id chunk, s))
                     (map (\<lambda>(cid, chunk, vs, ks). (chunk, f vs ks)) d)) k =
         map_option (\<lambda>(chunk, vs, ks). f vs ks) (map_of d k)"
  using assms by (induction d) auto

lemma fused_score_combined:
  "fused_score L vr kr cid =
     map_option (\<lambda>(chunk, vs, ks). vector_weight L * vs + keyword_weight L * ks)
       (map_of (process_keyword kr (process_vector vr)) cid)"
  unfolding fused_score_def fuse_def
  by (rule map_of_scores [OF combined_keyed])

lemma fused_score_entry:
  assumes "distinct (map (\<lambda>r. chunk_id (fst r)) vr)" and "(c, s) \<in> set vr"
  shows "fused_score L vr kr (chunk_id c) =
     Some (vector_weight L * normalize_score (max_score vr) s +
           keyword_weight L *
             fold (\<lambda>(chunk, s) k. if chunk_id chunk = chunk_id c
                                    then normalize_score (max_score kr) s else k) kr 0)"
proof -
  have v: "map_of (process_vector vr) (chunk_id c) = Some (c, normalize_score (max_score vr) s, 0)"
    by (rule process_vector_entry [OF assms])
  have "map_of (process_keyword kr (process_vector vr)) (chunk_id c) =
      Some (c, normalize_score (max_score vr) s,
            fold (\<lambda>(chunk, s) k. if chunk_id chunk = chunk_id c
                                   then normalize_score (max_score kr) s else k) kr 0)"
  proof (cases "kr = []")
    case True
    with v show ?thesis by (simp add: process_keyword_def)
  next
    case False
    with fold_keyword_entry [OF v] show ?thesis
      by (simp add: process_keyword_def)
  qed
  then show ?thesis
    by (simp add: fused_score_combined)
qed

lemma max_score_one_changed:
  "\<exists>mo. max_score (xs @ (c, s) # ys) = max s mo \<and>
        (\<forall>s'. s \<le> s' \<longrightarrow> max_score (xs @ (c, s') # ys) = max s' mo)"
proof (cases "set xs \<union> set ys = {}")
  case True
  then have "max_score (xs @ (c, s) # ys) = max s s"
    and "\<forall>s'. s \<le> s' \<longrightarrow> max_score (xs @ (c, s') # ys) = max s' s"
    by (simp_all add: max_score_def)
  then show ?thesis by blast
next
  case False
  let ?O = "snd ` (set xs \<union> set ys)"
  have fin: "finite ?O" and ne: "?O \<noteq> {}"
    using False by simp_all
  have "max_score (xs @ (c, t) # ys) = max t (Max ?O)" for t
  proof -
    have "max_score (xs @ (c, t) # ys) = Max (set (map snd (xs @ (c, t) # ys)))"
      by (rule max_score_Max) simp
    also have "set (map snd (xs @ (c, t) # ys)) = insert t ?O"
      by auto
    also have "Max (insert t ?O) = max t (Max ?O)"
      by (rule Max_insert [OF fin ne])
    finally show ?thesis .
  qed
  then show ?thesis by blast
qed


lemma hybrid_search_scores:
  assumes "hybrid_search L lib doc_index query k0 = Inr (rs, L')"
  shows "\<exists>vector_results keyword_results. set rs \<subseteq> set (fuse L' vector_results keyword_results)"
proof -
  have t: "set (take n (sort_desc xs)) \<subseteq> set xs" for n and xs :: "scored list"
    using set_take_subset [of n "sort_desc xs"] by (simp add: sort_desc_def)
  from assms obtain vr kr n where "rs = take n (sort_desc (fuse L' vr kr))"
    by (auto simp: hybrid_search_def Let_def split: sum.splits if_splits prod.splits)
  with t show ?thesis
    by blast
qed

text \<open>
  Claim C6. Among vector results that name each chunk once and have no negative score,
  raising the raw vector score of one chunk, with every other vector score and all keyword
  results unchanged, does not lower the fused score of that chunk, for a vector weight that
  is not negative. The fused score is the vector weight times the score divided by the
  largest vector score, plus the keyword weight times the normalised keyword score, which
  is the same before and after.
\<close>

theorem hybrid_fusion_monotonic:
  assumes "0 \<le> vector_weight L"
    and "distinct (map (\<lambda>r. chunk_id (fst r)) (xs @ (c, s) # ys))"
    and "\<forall>r \<in> set (xs @ (c, s) # ys). 0 \<le> snd r"
    and "s \<le> s'"
  shows "\<exists>k. fused_score L (xs @ (c, s) # ys) kr (chunk_id c) =
               Some (vector_weight L * normalize_score (max_score (xs @ (c, s) # ys)) s +
                     keyword_weight L * k) \<and>
             fused_score L (xs @ (c, s') # ys) kr (chunk_id c) =
               Some (vector_weight L * normalize_score (max_score (xs @ (c, s') # ys)) s' +
                     keyword_weight L * k) \<and>
             vector_weight L * normalize_score (max_score (xs @ (c, s) # ys)) s +
               keyword_weight L * k \<le>
             vector_weight L * normalize_score (max_score (xs @ (c, s') # ys)) s' +
               keyword_weight L * k"
proof -
  let ?vr = "xs @ (c, s) # ys" and ?vr' = "xs @ (c, s') # ys"
  let ?k = "fold (\<lambda>(chunk, s) k. if chunk_id chunk = chunk_id c
                                   then normalize_score (max_score kr) s else k) kr 0"
  have d': "distinct (map (\<lambda>r. chunk_id (fst r)) ?vr')"
    using assms(2) by simp
  have before: "fused_score L ?vr kr (chunk_id c) =
      Some (vector_weight L * normalize_score (max_score ?vr) s + keyword_weight L * ?k)"
    by (rule fused_score_entry [OF assms(2)]) simp
  have after: "fused_score L ?vr' kr (chunk_id c) =
      Some (vector_weight L * normalize_score (max_score ?vr') s' + keyword_weight L * ?k)"
    by (rule fused_score_entry [OF d']) simp
  from assms(3) have s0: "0 \<le> s"
    by simp
  obtain mo where m: "max_score ?vr = max s mo" and m': "max_score ?vr' = max s' mo"
    using max_score_one_changed [of xs c s ys] assms(4) by blast
  have "normalize_score (max_score ?vr) s \<le> normalize_score (max_score ?vr') s'"
    unfolding m m' by (rule normalize_mono [OF s0 assms(4)])
  then have "vector_weight L * normalize_score (max_score ?vr) s \<le>
      vector_weight L * normalize_score (max_score ?vr') s'"
    using assms(1) by (rule mult_left_mono)
  then have "vector_weight L * normalize_score (max_score ?vr) s + keyword_weight L * ?k \<le>
      vector_weight L * normalize_score (max_score ?vr') s' + keyword_weight L * ?k"
    by simp
  with before after show ?thesis
    by blast
qed

theorem hybrid_fusion_monotonic_witness:
  "fused_score default_retrieval [(chunk_b, 0.4), (chunk_a, 0.2)] [(chunk_b, 3.5)] ''chunk_a'' =
     Some 0.3 \<and>
   fused_score default_retrieval [(chunk_b, 0.4), (chunk_a, 0.5)] [(chunk_b, 3.5)] ''chunk_a'' =
     Some 0.6"
proof -
  have vw: "0 \<le> vector_weight default_retrieval"
    by (simp add: default_retrieval_def RetrievalLayer_init_def or_default_def
        DEFAULT_HYBRID_WEIGHT_VECTOR_def)
  have ids: "chunk_id chunk_b = ''chunk_b''" "chunk_id chunk_a = ''chunk_a''"
    by (simp_all add: chunk_a_def chunk_b_def mk_chunk_def)
  have dist: "distinct (map (\<lambda>r. chunk_id (fst r)) ([(chunk_b, 0.4::real)] @ (chunk_a, 0.2) # []))"
    by (simp add: ids)
  have nonneg: "\<forall>r \<in> set ([(chunk_b, 0.4::real)] @ (chunk_a, 0.2) # []). 0 \<le> snd r"
    by simp
  have le: "(0.2::real) \<le> 0.5"
    by simp
  have before: "fused_score default_retrieval [(chunk_b, 0.4), (chunk_a, 0.2)] [(chunk_b, 3.5)]
      ''chunk_a'' = Some 0.3"
    by code_simp
  have after: "fused_score default_retrieval [(chunk_b, 0.4), (chunk_a, 0.5)] [(chunk_b, 3.5)]
      ''chunk_a'' = Some 0.6"
    by code_simp
  from hybrid_fusion_monotonic [OF vw dist nonneg le, of "[(chunk_b, 3.5)]"] before after
  show ?thesis by simp
qed

subsection \<open>Retrieval: entity rerank\<close>

lemma rerank_scores:
  assumes "entities claim \<noteq> []" and "evidence_chunks ev \<noteq> []"
  shows "zip (evidence_chunks (rerank_by_entity_match claim ev))
             (scores (rerank_by_entity_match claim ev)) =
           sort_desc
             (map (\<lambda>(chunk, base_score).
                     (chunk,
                      min (base_score +
                           entity_bonus (remdups (map (\<lambda>e. lower (entity_text e)) (entities claim)))
                             chunk) 1))
                  (zip (evidence_chunks ev) (scores ev)))"
    and "ranked (zip (evidence_chunks (rerank_by_entity_match claim ev))
                     (scores (rerank_by_entity_match claim ev)))"
    and "\<forall>s \<in> set (scores (rerank_by_entity_match claim ev)). s \<le> 1"
proof -
  let ?new = "map (\<lambda>(chunk, base_score).
                     (chunk,
                      min (base_score +
                           entity_bonus (remdups (map (\<lambda>e. lower (entity_text e)) (entities claim)))
                             chunk) 1))
                  (zip (evidence_chunks ev) (scores ev))"
  have c: "evidence_chunks (rerank_by_entity_match claim ev) = map fst (sort_desc ?new)"
    and s: "scores (rerank_by_entity_match claim ev) = map snd (sort_desc ?new)"
    using assms by (simp_all add: rerank_by_entity_match_def Let_def)
  show z: "zip (evidence_chunks (rerank_by_entity_match claim ev))
      (scores (rerank_by_entity_match claim ev)) = sort_desc ?new"
    by (simp add: c s zip_map_fst_snd)
  show "ranked (zip (evidence_chunks (rerank_by_entity_match claim ev))
      (scores (rerank_by_entity_match claim ev)))"
    by (simp add: z ranked_sort_desc)
  have "\<forall>r \<in> set ?new. snd r \<le> 1"
    by auto
  then show "\<forall>s \<in> set (scores (rerank_by_entity_match claim ev)). s \<le> 1"
    by (simp add: s sort_desc_def)
qed

lemma rerank_keeps_input_citation:
  assumes "entities claim \<noteq> []" and "evidence_chunks ev \<noteq> []" and "scores ev \<noteq> []"
  shows "ev_citation (rerank_by_entity_match claim ev) = Some (get_citation_string ev)"
proof -
  let ?new = "map (\<lambda>(chunk, base_score).
                     (chunk,
                      min (base_score +
                           entity_bonus (remdups (map (\<lambda>e. lower (entity_text e)) (entities claim)))
                             chunk) 1))
                  (zip (evidence_chunks ev) (scores ev))"
  from assms(2,3) have "length (zip (evidence_chunks ev) (scores ev)) > 0"
    by simp
  moreover have "length (sort_desc ?new) = length (zip (evidence_chunks ev) (scores ev))"
    by (simp add: sort_desc_def)
  ultimately have "sort_desc ?new \<noteq> []"
    by (metis length_greater_0_conv)
  then show ?thesis
    using assms by (simp add: rerank_by_entity_match_def Let_def)
qed

text \<open>
  Claim C4 at a concrete input. The claim names the entity \<^verbatim>\<open>Paris\<close>; the evidence holds
  chunk a (document \<^verbatim>\<open>a.txt\<close>, score 0.9, no mention of Paris) before chunk b (document
  \<^verbatim>\<open>b.txt\<close>, score 0.85, mentions Paris). The rerank raises chunk b to 0.95 and puts it first,
  and \<^verbatim>\<open>top_evidence\<close> is its text, but the citation of the returned result is still
  \<^verbatim>\<open>a.txt\<close>, that of the top chunk before the rerank; the citation string of the returned
  result's own top chunk is \<^verbatim>\<open>b.txt\<close>.
\<close>

theorem rerank_citation_from_old_top:
  "map chunk_id (evidence_chunks paris_evidence) = [''chunk_a'', ''chunk_b''] \<and>
   map chunk_id (evidence_chunks (rerank_by_entity_match paris_claim paris_evidence)) =
     [''chunk_b'', ''chunk_a''] \<and>
   scores (rerank_by_entity_match paris_claim paris_evidence) = [0.95, 0.9] \<and>
   top_evidence (rerank_by_entity_match paris_claim paris_evidence) =
     Some ''The capital of France is Paris'' \<and>
   ev_citation (rerank_by_entity_match paris_claim paris_evidence) = Some ''a.txt'' \<and>
   get_citation_string (rerank_by_entity_match paris_claim paris_evidence) = ''b.txt''"
  by code_simp

end
